theory Spec2Isabelle
  imports Complex_Main "HOL-Library.Multiset" "HOL-Library.Product_Lexorder"
begin

section \<open>Luggage compliance: the data model\<close>

text \<open>
  The embedding follows \<^verbatim>\<open>luggage.py\<close> and \<^verbatim>\<open>luggage_compliance.py\<close>.

  \<^item> A Python number is an \<^verbatim>\<open>int\<close> of any size or a \<^verbatim>\<open>float\<close>: a finite double, an
    infinity or NaN. A finite float is kept as its exact rational value. The conversion
    of an int to a float rounds to the nearest double and raises OverflowError beyond the
    double range. The result of an operation between floats is its exact value (the
    rounding of that result to a double is not modelled), or an infinity beyond the range.
  \<^item> A dictionary is an association list; a key is looked up with \<open>map_of\<close>.
  \<^item> Luggage objects are mutable and shared between lists, so the evaluators work on a
    store: a list of luggage is a list of references, and the store maps a reference to
    the object's current fields.
  \<^item> An exception is a value of type \<open>error\<close>. A loop whose body can raise stops at
    the first exception, with the store as the body left it.
  \<^item> A \<^verbatim>\<open>print\<close> call is modelled by the exception it can raise, if any (the text of an
    item calls its accessor again, and the format \<^verbatim>\<open>:.1f\<close> converts an int to a float);
    the limit of Python on the number of digits of an int turned into text is not
    represented. Messages are kept as structured values in place of formatted text.
\<close>

datatype error = ValueError | KeyError | TypeError | IndexError | OverflowError

datatype pynum = PyInt int | PyFloat rat | PosInf | NegInf | NaN

datatype pyval = VStr string | VBool bool | VNum pynum

type_synonym dict = "(string \<times> pyval) list"

record Luggage =
  storage :: string
  excess :: bool
  special :: bool
  compliance :: bool
  weight :: pynum
  dim :: dict

type_synonym ref = nat
type_synonym store = "ref \<Rightarrow> Luggage"

text \<open>Sequencing of two computations that may raise: the first exception wins.\<close>

definition bind_err :: "error + 'a \<Rightarrow> ('a \<Rightarrow> error + 'b) \<Rightarrow> error + 'b" where
  "bind_err m f = (case m of Inl e \<Rightarrow> Inl e | Inr x \<Rightarrow> f x)"

text \<open>
  A \<^verbatim>\<open>for\<close> loop whose body can raise: the body returns the state it leaves and the
  exception, if any; the loop stops there.
\<close>

fun run_loop :: "('s \<Rightarrow> 'a \<Rightarrow> 's \<times> error option) \<Rightarrow> 's \<Rightarrow> 'a list \<Rightarrow> 's \<times> error option" where
  "run_loop body s [] = (s, None)"
| "run_loop body s (x # xs) =
     (case body s x of
        (s', None) \<Rightarrow> run_loop body s' xs
      | (s', Some e) \<Rightarrow> (s', Some e))"

subsection \<open>Python numbers\<close>

text \<open>
  The order of the numbers other than NaN: an int and a float compare by their exact
  values. Every comparison with NaN is false.
\<close>

fun rank :: "pynum \<Rightarrow> int \<times> rat" where
  "rank NegInf = (- 1, 0)"
| "rank (PyInt n) = (0, of_int n)"
| "rank (PyFloat r) = (0, r)"
| "rank PosInf = (1, 0)"
| "rank NaN = (2, 0)"

definition num_less :: "pynum \<Rightarrow> pynum \<Rightarrow> bool" where
  "num_less a b \<longleftrightarrow> a \<noteq> NaN \<and> b \<noteq> NaN \<and> rank a < rank b"

definition num_le :: "pynum \<Rightarrow> pynum \<Rightarrow> bool" where
  "num_le a b \<longleftrightarrow> a \<noteq> NaN \<and> b \<noteq> NaN \<and> rank a \<le> rank b"

definition num_eq :: "pynum \<Rightarrow> pynum \<Rightarrow> bool" where
  "num_eq a b \<longleftrightarrow> a \<noteq> NaN \<and> b \<noteq> NaN \<and> rank a = rank b"

text \<open>
  A magnitude from \<open>double_bound\<close> on has no double: it is half a step beyond the largest
  one, from where rounding goes out of the range.
\<close>

definition double_bound :: rat where
  "double_bound = 2 ^ 1024 - 2 ^ 970"

text \<open>The number of bits of a positive int, \<^verbatim>\<open>n.bit_length()\<close>.\<close>

function bit_length :: "int \<Rightarrow> nat" where
  "bit_length n = (if n \<le> 0 then 0 else Suc (bit_length (n div 2)))"
  by pat_completeness auto

termination
  by (relation "measure nat") auto

declare bit_length.simps [simp del]

text \<open>
  The double nearest to an int, ties to the even mantissa: an int of at most 53 bits is
  kept, a longer one is rounded at the bit that its 53 leading bits leave.
\<close>

definition round_to_double :: "int \<Rightarrow> int" where
  "round_to_double n =
     (let a = \<bar>n\<bar>;
          e = bit_length a - 53;
          q = a div 2 ^ e;
          r = a mod 2 ^ e;
          q' = (if 2 * r > 2 ^ e \<or> (2 * r = 2 ^ e \<and> odd q) then q + 1 else q)
      in sgn n * (q' * 2 ^ e))"

text \<open>The float of a number: an int is converted, a float is itself.\<close>

definition to_double :: "pynum \<Rightarrow> error + pynum" where
  "to_double x =
     (case x of
        PyInt n \<Rightarrow>
          (if double_bound \<le> \<bar>of_int n\<bar> then Inl OverflowError
           else Inr (PyFloat (of_int (round_to_double n))))
      | _ \<Rightarrow> Inr x)"

text \<open>The float that an operation between floats gives for the exact result \<open>r\<close>.\<close>

definition float_result :: "rat \<Rightarrow> pynum" where
  "float_result r =
     (if double_bound \<le> r then PosInf else if r \<le> - double_bound then NegInf else PyFloat r)"

fun float_neg :: "pynum \<Rightarrow> pynum" where
  "float_neg (PyFloat r) = PyFloat (- r)"
| "float_neg (PyInt n) = PyInt (- n)"
| "float_neg PosInf = NegInf"
| "float_neg NegInf = PosInf"
| "float_neg NaN = NaN"

fun float_add :: "pynum \<Rightarrow> pynum \<Rightarrow> pynum" where
  "float_add NaN y = NaN"
| "float_add x NaN = NaN"
| "float_add PosInf NegInf = NaN"
| "float_add NegInf PosInf = NaN"
| "float_add PosInf y = PosInf"
| "float_add x PosInf = PosInf"
| "float_add NegInf y = NegInf"
| "float_add x NegInf = NegInf"
| "float_add (PyFloat a) (PyFloat b) = float_result (a + b)"
| "float_add (PyFloat a) (PyInt n) = float_result (a + of_int n)"
| "float_add (PyInt m) (PyFloat b) = float_result (of_int m + b)"
| "float_add (PyInt m) (PyInt n) = PyInt (m + n)"

text \<open>
  \<^verbatim>\<open>a + b\<close> and \<^verbatim>\<open>a - b\<close>: between two ints the result is the int; otherwise an int
  operand is converted to a float first, which can raise.
\<close>

definition py_add :: "pynum \<Rightarrow> pynum \<Rightarrow> error + pynum" where
  "py_add a b =
     (case (a, b) of
        (PyInt m, PyInt n) \<Rightarrow> Inr (PyInt (m + n))
      | _ \<Rightarrow> bind_err (to_double a) (\<lambda>x. bind_err (to_double b) (\<lambda>y. Inr (float_add x y))))"

definition py_sub :: "pynum \<Rightarrow> pynum \<Rightarrow> error + pynum" where
  "py_sub a b =
     (case (a, b) of
        (PyInt m, PyInt n) \<Rightarrow> Inr (PyInt (m - n))
      | _ \<Rightarrow> bind_err (to_double a) (\<lambda>x. bind_err (to_double b) (\<lambda>y. Inr (float_add x (float_neg y)))))"

fun py_abs :: "pynum \<Rightarrow> pynum" where
  "py_abs (PyInt n) = PyInt \<bar>n\<bar>"
| "py_abs (PyFloat r) = PyFloat \<bar>r\<bar>"
| "py_abs PosInf = PosInf"
| "py_abs NegInf = PosInf"
| "py_abs NaN = NaN"

text \<open>A value as an operand of arithmetic: a bool is the int 0 or 1, a string raises TypeError.\<close>

definition as_number :: "pyval \<Rightarrow> error + pynum" where
  "as_number v =
     (case v of
        VStr s \<Rightarrow> Inl TypeError
      | VBool b \<Rightarrow> Inr (PyInt (if b then 1 else 0))
      | VNum x \<Rightarrow> Inr x)"

text \<open>
  \<^verbatim>\<open>v / 10\<close>: the true division of an int by an int raises OverflowError when the
  quotient is beyond the double range.
\<close>

definition div_by_10 :: "pyval \<Rightarrow> error + pynum" where
  "div_by_10 v =
     bind_err (as_number v) (\<lambda>x.
       case x of
         PyInt n \<Rightarrow>
           (if double_bound \<le> \<bar>of_int n / 10\<bar> then Inl OverflowError
            else Inr (PyFloat (of_int n / 10)))
       | PyFloat r \<Rightarrow> Inr (PyFloat (r / 10))
       | _ \<Rightarrow> Inr x)"

text \<open>\<^verbatim>\<open>v * 2.54\<close>: an int is converted to a float first.\<close>

definition times_2_54 :: "pyval \<Rightarrow> error + pynum" where
  "times_2_54 v =
     bind_err (as_number v) (\<lambda>x.
       bind_err (to_double x) (\<lambda>y.
         case y of
           PyFloat r \<Rightarrow> Inr (float_result (r * (254 / 100)))
         | _ \<Rightarrow> Inr y))"

text \<open>\<^verbatim>\<open>v <= bound\<close> for a limit of the policy table: a string raises TypeError.\<close>

definition val_le :: "pyval \<Rightarrow> rat \<Rightarrow> error + bool" where
  "val_le v bound = bind_err (as_number v) (\<lambda>x. Inr (num_le x (PyFloat bound)))"

text \<open>\<^verbatim>\<open>v == w\<close> between two values, by value.\<close>

definition pyval_eq :: "pyval \<Rightarrow> pyval \<Rightarrow> bool" where
  "pyval_eq v w =
     (case (v, w) of
        (VStr s, VStr t) \<Rightarrow> s = t
      | (VStr s, _) \<Rightarrow> False
      | (_, VStr t) \<Rightarrow> False
      | _ \<Rightarrow>
          (case (as_number v, as_number w) of
             (Inr x, Inr y) \<Rightarrow> num_eq x y
           | _ \<Rightarrow> False))"

text \<open>
  \<^verbatim>\<open>a == b\<close> between two dictionaries: the same keys, with equal values. (Python takes
  two values that are one object as equal without comparing them, which lets a NaN equal
  itself; values have no identity here.)
\<close>

definition dict_eq :: "dict \<Rightarrow> dict \<Rightarrow> bool" where
  "dict_eq a b \<longleftrightarrow>
     set (map fst a) = set (map fst b) \<and>
     list_all (\<lambda>k. case (map_of a k, map_of b k) of
                      (Some v, Some w) \<Rightarrow> pyval_eq v w
                    | _ \<Rightarrow> False) (map fst a)"

text \<open>\<^verbatim>\<open>d[k]\<close>: KeyError when the key is missing.\<close>

definition item_at :: "dict \<Rightarrow> string \<Rightarrow> error + pyval" where
  "item_at d k = (case map_of d k of None \<Rightarrow> Inl KeyError | Some v \<Rightarrow> Inr v)"

subsection \<open>The Luggage class\<close>

definition valid_storage_types :: "string list" where
  "valid_storage_types = [''carry-on'', ''checked'', ''special'', ''personal'']"

definition valid_units :: "string list" where
  "valid_units = [''cm'', ''in'', ''mm'']"

text \<open>
  One round of the loop over \<^verbatim>\<open>required_dims\<close> in \<^verbatim>\<open>__init__\<close>: the key must be
  present and hold a number (a \<^verbatim>\<open>bool\<close> is an \<^verbatim>\<open>int\<close> in Python) that is not below 0.
\<close>

definition check_dim :: "dict \<Rightarrow> string \<Rightarrow> bool" where
  "check_dim d dim_name =
     (case map_of d dim_name of
        None \<Rightarrow> False
      | Some (VStr s) \<Rightarrow> False
      | Some (VBool b) \<Rightarrow> True
      | Some (VNum x) \<Rightarrow> \<not> num_less x (PyInt 0))"

text \<open>
  \<^verbatim>\<open>Luggage.__init__\<close>; \<open>None\<close> for the \<^verbatim>\<open>dim\<close> argument is Python's \<^verbatim>\<open>None\<close>. The
  object keeps the dictionary it is given, whatever other keys it has, with the unit
  added when it has none.
\<close>

definition Luggage_init ::
  "string \<Rightarrow> bool \<Rightarrow> bool \<Rightarrow> bool \<Rightarrow> pynum \<Rightarrow> dict option \<Rightarrow> error + Luggage" where
  "Luggage_init sto ex sp co w dim_arg =
     (if sto \<notin> set valid_storage_types then Inl ValueError
      else if num_less w (PyInt 0) then Inl ValueError
      else
        (case dim_arg of
           None \<Rightarrow>
             Inr \<lparr>storage = sto, excess = ex, special = sp, compliance = co, weight = w,
                  dim = [(''height'', VNum (PyFloat 0)), (''width'', VNum (PyFloat 0)),
                         (''depth'', VNum (PyFloat 0)), (''unit'', VStr ''cm'')]\<rparr>
         | Some d \<Rightarrow>
             (if \<not> check_dim d ''height'' then Inl ValueError
              else if \<not> check_dim d ''width'' then Inl ValueError
              else if \<not> check_dim d ''depth'' then Inl ValueError
              else
                (case map_of d ''unit'' of
                   None \<Rightarrow>
                     Inr \<lparr>storage = sto, excess = ex, special = sp, compliance = co, weight = w,
                          dim = d @ [(''unit'', VStr ''cm'')]\<rparr>
                 | Some u \<Rightarrow>
                     (if u \<notin> set (map VStr valid_units) then Inl ValueError
                      else Inr \<lparr>storage = sto, excess = ex, special = sp, compliance = co,
                                weight = w, dim = d\<rparr>)))))"

text \<open>
  The objects the constructor accepts: what \<^verbatim>\<open>__init__\<close> checks, read on the fields.
\<close>

definition valid_Luggage :: "Luggage \<Rightarrow> bool" where
  "valid_Luggage l \<longleftrightarrow>
     storage l \<in> set valid_storage_types \<and>
     \<not> num_less (weight l) (PyInt 0) \<and>
     check_dim (dim l) ''height'' \<and> check_dim (dim l) ''width'' \<and> check_dim (dim l) ''depth'' \<and>
     (case map_of (dim l) ''unit'' of None \<Rightarrow> False | Some u \<Rightarrow> u \<in> set (map VStr valid_units))"

text \<open>
  \<^verbatim>\<open>_get_dimensions_in_cm\<close> returns the dictionary of the three lengths, here the
  triple (height, width, depth). A missing key raises KeyError; the division and the
  product raise TypeError on a string and OverflowError on an int beyond the double
  range. For any other unit than mm and in, the three values are returned as they are.
\<close>

definition get_dimensions_in_cm :: "Luggage \<Rightarrow> error + pyval \<times> pyval \<times> pyval" where
  "get_dimensions_in_cm l =
     bind_err (item_at (dim l) ''height'') (\<lambda>hh.
     bind_err (item_at (dim l) ''width'') (\<lambda>ww.
     bind_err (item_at (dim l) ''depth'') (\<lambda>dd.
     bind_err (item_at (dim l) ''unit'') (\<lambda>u.
       if u = VStr ''mm'' then
         bind_err (div_by_10 hh) (\<lambda>a. bind_err (div_by_10 ww) (\<lambda>b. bind_err (div_by_10 dd) (\<lambda>c.
           Inr (VNum a, VNum b, VNum c))))
       else if u = VStr ''in'' then
         bind_err (times_2_54 hh) (\<lambda>a. bind_err (times_2_54 ww) (\<lambda>b. bind_err (times_2_54 dd) (\<lambda>c.
           Inr (VNum a, VNum b, VNum c))))
       else Inr (hh, ww, dd)))))"

text \<open>\<^verbatim>\<open>get_total_size_cm\<close>: \<^verbatim>\<open>sum\<close> starts from the int 0 and adds the three values in order.\<close>

definition get_total_size_cm :: "Luggage \<Rightarrow> error + pynum" where
  "get_total_size_cm l =
     bind_err (get_dimensions_in_cm l) (\<lambda>(hh, ww, dd).
     bind_err (as_number hh) (\<lambda>a. bind_err (py_add (PyInt 0) a) (\<lambda>s1.
     bind_err (as_number ww) (\<lambda>b. bind_err (py_add s1 b) (\<lambda>s2.
     bind_err (as_number dd) (\<lambda>c. py_add s2 c))))))"

definition get_dimensions_list_cm :: "Luggage \<Rightarrow> error + pyval list" where
  "get_dimensions_list_cm l =
     bind_err (get_dimensions_in_cm l) (\<lambda>(hh, ww, dd). Inr [hh, ww, dd])"

text \<open>
  The exception that the text of an item raises, if any: \<^verbatim>\<open>__str__\<close> calls
  \<^verbatim>\<open>_get_dimensions_in_cm\<close>.
\<close>

definition str_error :: "Luggage \<Rightarrow> error option" where
  "str_error l = (case get_dimensions_in_cm l of Inl e \<Rightarrow> Some e | Inr t \<Rightarrow> None)"

text \<open>The exception that the format \<^verbatim>\<open>:.1f\<close> raises on a number, if any.\<close>

definition format_1f_error :: "pynum \<Rightarrow> error option" where
  "format_1f_error x = (case to_double x of Inl e \<Rightarrow> Some e | Inr y \<Rightarrow> None)"

text \<open>\<^verbatim>\<open>to_dict\<close>: the flat dictionary of nine keys.\<close>

definition to_dict :: "Luggage \<Rightarrow> error + dict" where
  "to_dict l =
     bind_err (item_at (dim l) ''height'') (\<lambda>hh.
     bind_err (item_at (dim l) ''width'') (\<lambda>ww.
     bind_err (item_at (dim l) ''depth'') (\<lambda>dd.
     bind_err (item_at (dim l) ''unit'') (\<lambda>u.
       Inr [(''storage'', VStr (storage l)),
            (''excess'', VBool (excess l)),
            (''special'', VBool (special l)),
            (''compliance'', VBool (compliance l)),
            (''weight'', VNum (weight l)),
            (''height'', hh),
            (''width'', ww),
            (''depth'', dd),
            (''unit'', u)]))))"

text \<open>
  Python's \<^verbatim>\<open>float(v)\<close>. What a string spells is left to \<open>parse\<close>, which stands for
  Python's reading of a number's text: \<open>None\<close> where \<^verbatim>\<open>float\<close> raises ValueError.
\<close>

definition py_float :: "(string \<Rightarrow> pynum option) \<Rightarrow> pyval \<Rightarrow> error + pynum" where
  "py_float parse v =
     (case v of
        VNum x \<Rightarrow> to_double x
      | VBool b \<Rightarrow> Inr (PyFloat (if b then 1 else 0))
      | VStr s \<Rightarrow> (case parse s of None \<Rightarrow> Inl ValueError | Some x \<Rightarrow> Inr x))"

text \<open>\<^verbatim>\<open>float(data[key])\<close>: KeyError when the key is missing.\<close>

definition float_at :: "(string \<Rightarrow> pynum option) \<Rightarrow> dict \<Rightarrow> string \<Rightarrow> error + pynum" where
  "float_at parse data k = bind_err (item_at data k) (py_float parse)"

text \<open>
  A flag read with \<^verbatim>\<open>data.get(key, False)\<close>. The record types the flags as booleans; a
  value of another type stands for its truth value.
\<close>

definition flag_at :: "dict \<Rightarrow> string \<Rightarrow> bool" where
  "flag_at data k =
     (case map_of data k of
        None \<Rightarrow> False
      | Some (VBool b) \<Rightarrow> b
      | Some (VNum x) \<Rightarrow> \<not> num_eq x (PyInt 0)
      | Some (VStr s) \<Rightarrow> s \<noteq> [])"

text \<open>
  The body of the \<^verbatim>\<open>try\<close> of \<^verbatim>\<open>from_dict\<close>. The arguments are evaluated in the order of
  the call; the \<^verbatim>\<open>dim\<close> dictionary handed to the constructor has the four keys, the three
  lengths as floats. A storage value that is not a string is in no list of strings, so the
  constructor refuses it.
\<close>

definition from_dict_body :: "(string \<Rightarrow> pynum option) \<Rightarrow> dict \<Rightarrow> error + Luggage" where
  "from_dict_body parse data =
     bind_err (item_at data ''storage'') (\<lambda>sto.
     bind_err (float_at parse data ''weight'') (\<lambda>w.
     bind_err (float_at parse data ''height'') (\<lambda>hh.
     bind_err (float_at parse data ''width'') (\<lambda>ww.
     bind_err (float_at parse data ''depth'') (\<lambda>dd.
       (let u = (case map_of data ''unit'' of None \<Rightarrow> VStr ''cm'' | Some v \<Rightarrow> v);
            d = [(''height'', VNum hh), (''width'', VNum ww), (''depth'', VNum dd), (''unit'', u)]
        in case sto of
             VStr s \<Rightarrow>
               Luggage_init s (flag_at data ''excess'') (flag_at data ''special'')
                 (flag_at data ''compliance'') w (Some d)
           | VBool b \<Rightarrow> Inl ValueError
           | VNum x \<Rightarrow> Inl ValueError))))))"

text \<open>
  \<^verbatim>\<open>from_dict\<close>: KeyError, ValueError and TypeError are re-raised as ValueError; an
  OverflowError of \<^verbatim>\<open>float\<close> is not caught.
\<close>

definition from_dict :: "(string \<Rightarrow> pynum option) \<Rightarrow> dict \<Rightarrow> error + Luggage" where
  "from_dict parse data =
     (case from_dict_body parse data of
        Inl KeyError \<Rightarrow> Inl ValueError
      | Inl ValueError \<Rightarrow> Inl ValueError
      | Inl TypeError \<Rightarrow> Inl ValueError
      | Inl e \<Rightarrow> Inl e
      | Inr l \<Rightarrow> Inr l)"

text \<open>
  \<^verbatim>\<open>__eq__\<close> between two Luggage objects. The conjunction stops at its first false
  operand; the difference of the weights can raise.
\<close>

definition Luggage_eq :: "Luggage \<Rightarrow> Luggage \<Rightarrow> error + bool" where
  "Luggage_eq a b =
     (if storage a \<noteq> storage b then Inr False
      else bind_err (py_sub (weight a) (weight b)) (\<lambda>d.
        Inr (num_less (py_abs d) (PyFloat (1 / 100)) \<and>
             dict_eq (dim a) (dim b) \<and>
             excess a = excess b \<and>
             special a = special b \<and>
             compliance a = compliance b)))"

section \<open>The policy object\<close>

record carry_on_policy =
  quantity :: int
  co_weight_limit :: rat
  co_size_limit :: "rat list"

record checked_policy =
  allowance :: int
  weight_limit :: rat
  size_limit :: rat

record class_policy =
  carry_on :: carry_on_policy
  checked :: checked_policy

record fee_table =
  overweight :: rat
  oversize :: rat
  extra_piece :: rat

text \<open>
  The attributes of a \<^verbatim>\<open>LuggageCompliance\<close> object. \<^verbatim>\<open>child_allowances[p]["checked"]\<close>
  is the only entry of an age category that the code reads, so the table maps the
  category to it.
\<close>

record LuggageCompliance =
  classes :: "string \<rightharpoonup> class_policy"
  child_allowances :: "string \<rightharpoonup> checked_policy"
  excess_fees :: fee_table

text \<open>\<^verbatim>\<open>LuggageCompliance.__init__\<close>.\<close>

definition LuggageCompliance_init :: LuggageCompliance where
  "LuggageCompliance_init =
     \<lparr>classes = map_of
        [(''Economy'',
            \<lparr>carry_on = \<lparr>quantity = 1, co_weight_limit = 7, co_size_limit = [55, 40, 23]\<rparr>,
             checked = \<lparr>allowance = 1, weight_limit = 23, size_limit = 158\<rparr>\<rparr>),
         (''Business'',
            \<lparr>carry_on = \<lparr>quantity = 2, co_weight_limit = 12, co_size_limit = [55, 40, 23]\<rparr>,
             checked = \<lparr>allowance = 2, weight_limit = 32, size_limit = 158\<rparr>\<rparr>),
         (''First'',
            \<lparr>carry_on = \<lparr>quantity = 2, co_weight_limit = 12, co_size_limit = [55, 40, 23]\<rparr>,
             checked = \<lparr>allowance = 3, weight_limit = 32, size_limit = 158\<rparr>\<rparr>)],
      child_allowances = map_of
        [(''child'', \<lparr>allowance = 1, weight_limit = 23, size_limit = 158\<rparr>),
         (''infant'', \<lparr>allowance = 1, weight_limit = 10, size_limit = 158\<rparr>)],
      excess_fees = \<lparr>overweight = 75, oversize = 100, extra_piece = 150\<rparr>\<rparr>"

subsection \<open>Python list slices\<close>

text \<open>\<^verbatim>\<open>xs[k:]\<close>: a negative bound counts from the end, clipped at 0.\<close>

definition slice_from :: "'a list \<Rightarrow> int \<Rightarrow> 'a list" where
  "slice_from xs k = (if k < 0 then drop (nat (int (length xs) + k)) xs else drop (nat k) xs)"


section \<open>The carry-on evaluator\<close>

datatype carry_on_message = Cabin_ok | Must_move nat

text \<open>
  \<^verbatim>\<open>all(dim <= lim for dim, lim in zip(dimensions_cm, size_limit))\<close>: the generator
  stops at the first dimension over its limit; a dimension that is a string raises
  TypeError when its turn comes.
\<close>

fun all_le :: "(pyval \<times> rat) list \<Rightarrow> error + bool" where
  "all_le [] = Inr True"
| "all_le ((d, bound) # ps) =
     bind_err (val_le d bound) (\<lambda>ok. if ok then all_le ps else Inr False)"

text \<open>
  The handler of lines 76 to 79: its \<^verbatim>\<open>print\<close> comes first and writes the text of the
  item, so an exception of the accessor is raised again there, out of the loop and of
  \<^verbatim>\<open>validate_carry_on\<close>, before the item is touched.
\<close>

definition carry_on_handler ::
  "store \<times> ref list \<times> ref list \<Rightarrow> ref \<Rightarrow> (store \<times> ref list \<times> ref list) \<times> error option" where
  "carry_on_handler st r =
     (case st of (h, checked_candidates, compliant_items) \<Rightarrow>
        (case str_error (h r) of
           Some e \<Rightarrow> (st, Some e)
         | None \<Rightarrow>
             ((h(r := (h r)\<lparr>compliance := False\<rparr>), checked_candidates @ [r], compliant_items),
              None)))"

text \<open>
  The body of the loop over \<^verbatim>\<open>total_items\<close> (lines 57 to 79). The state is the store,
  \<^verbatim>\<open>checked_candidates\<close> and \<^verbatim>\<open>compliant_items\<close>.
\<close>

definition carry_on_step ::
  "carry_on_policy \<Rightarrow> store \<times> ref list \<times> ref list \<Rightarrow> ref
    \<Rightarrow> (store \<times> ref list \<times> ref list) \<times> error option" where
  "carry_on_step class_policy st r =
     (case st of (h, checked_candidates, compliant_items) \<Rightarrow>
        (let item = h r in
         case get_dimensions_list_cm item of
           Inl e \<Rightarrow> carry_on_handler st r
         | Inr dimensions_cm \<Rightarrow>
             (case all_le (zip dimensions_cm (co_size_limit class_policy)) of
                Inl e \<Rightarrow> carry_on_handler st r
              | Inr size_ok \<Rightarrow>
                  (let weight_ok = num_le (weight item) (PyFloat (co_weight_limit class_policy))
                   in if \<not> size_ok \<or> \<not> weight_ok
                      then ((h(r := item\<lparr>compliance := False\<rparr>), checked_candidates @ [r],
                             compliant_items), None)
                      else ((h(r := item\<lparr>compliance := True\<rparr>), checked_candidates,
                             compliant_items @ [r]), None)))))"

text \<open>
  The body of the loop of lines 89 to 92: the item is marked, then its text is printed.
\<close>

definition overflow_step :: "store \<Rightarrow> ref \<Rightarrow> store \<times> error option" where
  "overflow_step h r =
     (let h' = h(r := (h r)\<lparr>excess := True, compliance := False\<rparr>) in (h', str_error (h' r)))"

definition mark_overflow :: "store \<Rightarrow> ref list \<Rightarrow> store \<times> error option" where
  "mark_overflow h overflow = run_loop overflow_step h overflow"

text \<open>
  The keys of \<^verbatim>\<open>sort(key=lambda x: x.weight, reverse=True)\<close>: the order of the weights,
  reversed. A compliant item has passed \<^verbatim>\<open>item.weight <= weight_limit\<close>, so no key of
  this sort is NaN.
\<close>

definition rank_desc :: "pynum \<Rightarrow> int \<times> rat" where
  "rank_desc x = (case rank x of (a, b) \<Rightarrow> (- a, - b))"

text \<open>
  \<^verbatim>\<open>validate_carry_on\<close>. \<^verbatim>\<open>list.sort(key=..., reverse=True)\<close> is stable: items of equal
  weight keep their order, which is what the stable insertion sort on the reversed key
  does. The local \<^verbatim>\<open>compliant_items\<close> is dropped at the return. The store is returned
  beside an exception too: what was written before it stays written.
\<close>

definition validate_carry_on ::
  "LuggageCompliance \<Rightarrow> store \<Rightarrow> string \<Rightarrow> ref list \<Rightarrow> ref list
    \<Rightarrow> store \<times> (error + bool \<times> carry_on_message \<times> ref list)" where
  "validate_carry_on self h travel_class carry_on_items personal_items =
     (case classes self travel_class of
        None \<Rightarrow> (h, Inl ValueError)
      | Some cp \<Rightarrow>
          (let class_policy = carry_on cp;
               total_items = carry_on_items @ personal_items
           in case run_loop (carry_on_step class_policy) (h, [], []) total_items of
                ((h1, checked_candidates, compliant_items), Some e) \<Rightarrow> (h1, Inl e)
              | ((h1, checked_candidates, compliant_items), None) \<Rightarrow>
                  (let max_items = quantity class_policy + 1
                   in if int (length compliant_items) > max_items
                      then
                        (let sorted_items = sort_key (\<lambda>x. rank_desc (weight (h1 x))) compliant_items;
                             overflow = slice_from sorted_items max_items
                         in case mark_overflow h1 overflow of
                              (h2, Some e) \<Rightarrow> (h2, Inl e)
                            | (h2, None) \<Rightarrow>
                                (let checked_candidates2 = checked_candidates @ overflow;
                                     message = (if length checked_candidates2 > 0
                                                then Must_move (length checked_candidates2)
                                                else Cabin_ok)
                                 in (h2, Inr (True, message, checked_candidates2))))
                      else
                        (let message = (if length checked_candidates > 0
                                        then Must_move (length checked_candidates)
                                        else Cabin_ok)
                         in (h1, Inr (True, message, checked_candidates))))))"

section \<open>The checked-baggage evaluator\<close>

datatype fee_part =
    Child_allowance int
  | Surpoids "pyval list" pynum rat
  | Surtaille "pyval list" pynum rat
  | Extra_pieces int

datatype fee_message = Conformes | Frais "fee_part list"

datatype checked_message = Plain fee_message | Echec nat fee_message

text \<open>
  \<^verbatim>\<open>all(dim <= carry_on_limits[i] for i, dim in enumerate(dimensions_cm))\<close>: the
  generator stops at the first dimension over its limit; indexing the limits past
  their end raises IndexError, and a dimension that is a string raises TypeError.
\<close>

fun all_within :: "rat list \<Rightarrow> nat \<Rightarrow> pyval list \<Rightarrow> error + bool" where
  "all_within carry_on_limits i [] = Inr True"
| "all_within carry_on_limits i (d # ds) =
     (if i \<ge> length carry_on_limits then Inl IndexError
      else bind_err (val_le d (carry_on_limits ! i))
             (\<lambda>ok. if ok then all_within carry_on_limits (Suc i) ds else Inr False))"

text \<open>
  Lines 129 to 136: the accessor call, then the condition with the short-circuit of
  \<^verbatim>\<open>and\<close>: can the item go back to the cabin?
\<close>

definition can_return_to_cabin :: "carry_on_policy \<Rightarrow> int \<Rightarrow> Luggage \<Rightarrow> error + bool" where
  "can_return_to_cabin co carry_on_capacity item =
     bind_err (get_dimensions_list_cm item) (\<lambda>dimensions_cm.
       (let carry_on_limits = co_size_limit co;
            carry_on_weight_limit = co_weight_limit co
        in if \<not> carry_on_capacity > 0 then Inr False
           else bind_err (all_within carry_on_limits 0 dimensions_cm)
                  (\<lambda>ok. Inr (ok \<and> num_le (weight item) (PyFloat carry_on_weight_limit)))))"

text \<open>
  The body of the cabin-reclaim loop (lines 127 to 149). The state is the store,
  \<^verbatim>\<open>carry_on_capacity\<close>, \<^verbatim>\<open>carryon_candidates\<close> and \<^verbatim>\<open>retained_checked_items\<close>. An
  exception in the \<^verbatim>\<open>try\<close> keeps the item in the checked list: before the condition,
  with nothing written, or at the \<^verbatim>\<open>print\<close> of line 143, after the item was admitted.
  The handler prints the exception only, and raises nothing.
\<close>

definition reclaim_step ::
  "carry_on_policy \<Rightarrow> store \<times> int \<times> ref list \<times> ref list \<Rightarrow> ref
    \<Rightarrow> store \<times> int \<times> ref list \<times> ref list" where
  "reclaim_step co st r =
     (case st of (h, carry_on_capacity, carryon_candidates, retained_checked_items) \<Rightarrow>
        (case can_return_to_cabin co carry_on_capacity (h r) of
           Inr True \<Rightarrow>
             (let h' = h(r := (h r)\<lparr>storage := ''carry-on'', compliance := True, excess := False\<rparr>)
              in case str_error (h' r) of
                   None \<Rightarrow>
                     (h', carry_on_capacity - 1, carryon_candidates @ [r], retained_checked_items)
                 | Some e \<Rightarrow>
                     (h', carry_on_capacity - 1, carryon_candidates @ [r],
                      retained_checked_items @ [r]))
         | Inr False \<Rightarrow>
             (h, carry_on_capacity, carryon_candidates, retained_checked_items @ [r])
         | Inl e \<Rightarrow>
             (h, carry_on_capacity, carryon_candidates, retained_checked_items @ [r])))"

text \<open>
  Lines 155 to 161: the total size and the list of dimensions of an item, or infinity
  and three zeros when an accessor raises.
\<close>

definition size_or_inf :: "Luggage \<Rightarrow> pynum \<times> pyval list" where
  "size_or_inf item =
     (case get_total_size_cm item of
        Inl e \<Rightarrow> (PosInf, [VNum (PyInt 0), VNum (PyInt 0), VNum (PyInt 0)])
      | Inr total_size_cm \<Rightarrow>
          (case get_dimensions_list_cm item of
             Inl e \<Rightarrow> (PosInf, [VNum (PyInt 0), VNum (PyInt 0), VNum (PyInt 0)])
           | Inr dimensions_cm \<Rightarrow> (total_size_cm, dimensions_cm)))"

text \<open>
  The body of the loop over \<^verbatim>\<open>retained_checked_items\<close> (lines 152 to 181). The state is
  the store, \<^verbatim>\<open>fees\<close>, \<^verbatim>\<open>cargo_items\<close> and \<^verbatim>\<open>message_parts\<close>. The \<^verbatim>\<open>print\<close> of line 168
  is in no \<^verbatim>\<open>try\<close>: it comes after the item was marked and appended to \<^verbatim>\<open>cargo_items\<close>,
  writes the text of the item, then the total size in the format \<^verbatim>\<open>:.1f\<close>, and what it
  raises leaves the function. So does what the format of line 181 raises, after the
  oversize fee was added and the item marked.
\<close>

definition fee_step ::
  "fee_table \<Rightarrow> checked_policy \<Rightarrow> store \<times> rat \<times> ref list \<times> fee_part list \<Rightarrow> ref
    \<Rightarrow> (store \<times> rat \<times> ref list \<times> fee_part list) \<times> error option" where
  "fee_step ef class_policy st r =
     (case st of (h, fees, cargo_items, message_parts) \<Rightarrow>
        (let w = weight (h r);
             (total_size_cm, dimensions_cm) = size_or_inf (h r)
         in if num_less (PyInt 32) w \<or> num_less (PyInt 203) total_size_cm
            then
              (let h' = h(r := (h r)\<lparr>special := True, compliance := False\<rparr>)
               in ((h', fees, cargo_items @ [r], message_parts),
                   (case str_error (h' r) of
                      Some e \<Rightarrow> Some e
                    | None \<Rightarrow> format_1f_error total_size_cm)))
            else
              (let (h1, fees1, parts1) =
                     (if num_less (PyFloat (weight_limit class_policy)) w
                      then (h(r := (h r)\<lparr>excess := True\<rparr>), fees + overweight ef,
                            message_parts @ [Surpoids dimensions_cm w (weight_limit class_policy)])
                      else (h, fees, message_parts))
               in if num_less (PyFloat (size_limit class_policy)) total_size_cm
                     \<and> num_le total_size_cm (PyInt 203)
                  then
                    (let h2 = h1(r := (h1 r)\<lparr>excess := True\<rparr>)
                     in case format_1f_error total_size_cm of
                          Some e \<Rightarrow> ((h2, fees1 + oversize ef, cargo_items, parts1), Some e)
                        | None \<Rightarrow>
                            ((h2, fees1 + oversize ef, cargo_items,
                              parts1 @ [Surtaille dimensions_cm total_size_cm (size_limit class_policy)]),
                             None))
                  else ((h1, fees1, cargo_items, parts1), None))))"

text \<open>Lines 190 and 191: the items of the slice are marked.\<close>

definition mark_excess :: "store \<Rightarrow> ref list \<Rightarrow> store" where
  "mark_excess h items = foldl (\<lambda>h r. h(r := (h r)\<lparr>excess := True\<rparr>)) h items"

text \<open>
  Lines 110 to 121: the copy of the class's checked policy with the allowance of the
  age category applied, and the message part that goes with it.
\<close>

definition overlay_policy ::
  "LuggageCompliance \<Rightarrow> checked_policy \<Rightarrow> string \<Rightarrow> checked_policy \<times> fee_part list" where
  "overlay_policy self class_checked passenger_type =
     (case child_allowances self passenger_type of
        None \<Rightarrow> (class_checked, [])
      | Some child_policy \<Rightarrow>
          (class_checked
             \<lparr>allowance := allowance class_checked + allowance child_policy,
              weight_limit := max (weight_limit class_checked) (weight_limit child_policy)\<rparr>,
           [Child_allowance (allowance child_policy)]))"

text \<open>
  Lines 123 to 204 of \<^verbatim>\<open>validate_checked_baggage\<close>, as a function of the locals
  \<^verbatim>\<open>class_policy\<close> and \<^verbatim>\<open>message_parts\<close> that lines 110 to 121 have set. The state it
  returns is the policy object, the store and the caller's \<^verbatim>\<open>checked_items\<close> list, which
  \<^verbatim>\<open>list.sort\<close> reorders in place, also when a later line raises. The sort is stable and
  ascending in the order of the weights; with a NaN among the weights \<^verbatim>\<open>list.sort\<close>
  leaves an order that depends on its algorithm, and this model is not meant for it.
  The local \<^verbatim>\<open>carryon_candidates\<close> is dropped at the return.
\<close>

definition checked_stage ::
  "LuggageCompliance \<Rightarrow> carry_on_policy \<Rightarrow> checked_policy \<Rightarrow> fee_part list \<Rightarrow> store \<Rightarrow> ref list
    \<Rightarrow> int
    \<Rightarrow> (LuggageCompliance \<times> store \<times> ref list) \<times> (error + bool \<times> checked_message \<times> ref list \<times> rat)" where
  "checked_stage self co class_policy message_parts0 h checked_items carry_on_capacity =
     (let sorted_items = sort_key (\<lambda>x. rank (weight (h x))) checked_items
      in case foldl (reclaim_step co) (h, carry_on_capacity, [], []) sorted_items of
           (h1, capacity1, carryon_candidates, retained_checked_items) \<Rightarrow>
         case run_loop (fee_step (excess_fees self) class_policy) (h1, 0, [], message_parts0)
                retained_checked_items of
           ((h2, fees2, cargo_items, message_parts2), Some e) \<Rightarrow>
             ((self, h2, sorted_items), Inl e)
         | ((h2, fees2, cargo_items, message_parts2), None) \<Rightarrow>
             (let excess_items = max 0 (int (length retained_checked_items) - allowance class_policy);
                  (h3, fees3, message_parts3) =
                    (if excess_items > 0
                     then (mark_excess h2 (slice_from retained_checked_items (- excess_items)),
                           fees2 + extra_piece (excess_fees self) * of_int excess_items,
                           message_parts2 @ [Extra_pieces excess_items])
                     else (h2, fees2, message_parts2));
                  message = (if message_parts3 \<noteq> [] then Frais message_parts3 else Conformes)
              in if cargo_items \<noteq> []
                 then ((self, h3, sorted_items),
                       Inr (False, Echec (length cargo_items) message, cargo_items, fees3))
                 else ((self, h3, sorted_items),
                       Inr (True, Plain message, cargo_items, fees3))))"

text \<open>
  \<^verbatim>\<open>validate_checked_baggage\<close>: the class lookup, the age overlay on the copy, then the
  rest of the body.
\<close>

definition validate_checked_baggage ::
  "LuggageCompliance \<Rightarrow> store \<Rightarrow> string \<Rightarrow> ref list \<Rightarrow> string \<Rightarrow> int
    \<Rightarrow> (LuggageCompliance \<times> store \<times> ref list) \<times> (error + bool \<times> checked_message \<times> ref list \<times> rat)" where
  "validate_checked_baggage self h travel_class checked_items passenger_type carry_on_capacity =
     (case classes self travel_class of
        None \<Rightarrow> ((self, h, checked_items), Inl ValueError)
      | Some cp \<Rightarrow>
          (let (class_policy, message_parts0) = overlay_policy self (checked cp) passenger_type
           in checked_stage self (carry_on cp) class_policy message_parts0 h checked_items
                carry_on_capacity))"

section \<open>The orchestrator\<close>

record LuggageComplianceRequest =
  travel_class :: string
  age_category :: string
  luggages :: "ref list"

text \<open>\<^verbatim>\<open>LuggageComplianceRequest.__init__\<close>.\<close>

definition LuggageComplianceRequest_init ::
  "string \<Rightarrow> string \<Rightarrow> ref list \<Rightarrow> error + LuggageComplianceRequest" where
  "LuggageComplianceRequest_init tc ac ls =
     (if tc \<notin> set [''Economy'', ''Business'', ''First''] then Inl ValueError
      else if ac \<notin> set [''adult'', ''child'', ''infant''] then Inl ValueError
      else Inr \<lparr>travel_class = tc, age_category = ac, luggages = ls\<rparr>)"

datatype sub_message = From_carry_on carry_on_message | From_checked checked_message

datatype final_message = Tous_conformes | Joined "sub_message list" | Erreur error

text \<open>Lines 223 and 224: the moved items become checked items.\<close>

definition set_checked :: "store \<Rightarrow> ref list \<Rightarrow> store" where
  "set_checked h items = foldl (\<lambda>h r. h(r := (h r)\<lparr>storage := ''checked''\<rparr>)) h items"

text \<open>
  The body of the \<^verbatim>\<open>try\<close> of \<^verbatim>\<open>test_eligibility\<close> (lines 209 to 251). The store is
  returned beside the result or the exception: what was written to the items before an
  exception stays written.
\<close>

definition test_eligibility_body ::
  "LuggageCompliance \<Rightarrow> store \<Rightarrow> LuggageComplianceRequest
    \<Rightarrow> store \<times> (error + bool \<times> final_message \<times> ref list \<times> ref list \<times> rat)" where
  "test_eligibility_body self h request =
     (let carry_on_items = filter (\<lambda>x. storage (h x) = ''carry-on'') (luggages request);
          personal_items = filter (\<lambda>x. storage (h x) = ''personal'') (luggages request);
          checked_items = filter (\<lambda>x. storage (h x) = ''checked'') (luggages request)
      in case validate_carry_on self h (travel_class request) carry_on_items personal_items of
           (h1, Inl e) \<Rightarrow> (h1, Inl e)
         | (h1, Inr (carry_on_valid, carry_on_msg, carry_on_to_check)) \<Rightarrow>
             (let h2 = set_checked h1 carry_on_to_check;
                  all_checked_items = checked_items @ carry_on_to_check
              in case classes self (travel_class request) of
                   None \<Rightarrow> (h2, Inl KeyError)
                 | Some cp \<Rightarrow>
                     (let class_policy = carry_on cp;
                          carry_on_capacity =
                            max 0 (quantity class_policy + 1
                                   - (int (length carry_on_items) + int (length personal_items)
                                      - int (length carry_on_to_check)))
                      in case validate_checked_baggage self h2 (travel_class request)
                                all_checked_items (age_category request) carry_on_capacity of
                           ((self3, h3, sorted3), Inl e) \<Rightarrow> (h3, Inl e)
                         | ((self3, h3, sorted3), Inr (checked_result, checked_message, cargo_items, fees)) \<Rightarrow>
                             (let messages =
                                    (if carry_on_msg \<noteq> Cabin_ok then [From_carry_on carry_on_msg] else [])
                                    @ (if checked_message \<noteq> Plain Conformes
                                       then [From_checked checked_message] else []);
                                  full_message = (if messages \<noteq> [] then Joined messages else Tous_conformes);
                                  final_result = (checked_result \<and> length cargo_items = 0)
                              in (h3, Inr (final_result, full_message, carry_on_to_check,
                                           cargo_items, fees))))))"

text \<open>
  \<^verbatim>\<open>test_eligibility\<close>: the handler of line 253 turns every exception of the body into
  the failed result.
\<close>

definition test_eligibility ::
  "LuggageCompliance \<Rightarrow> store \<Rightarrow> LuggageComplianceRequest
    \<Rightarrow> store \<times> (bool \<times> final_message \<times> ref list \<times> ref list \<times> rat)" where
  "test_eligibility self h request =
     (case test_eligibility_body self h request of
        (h', Inl e) \<Rightarrow> (h', (False, Erreur e, [], [], 0))
      | (h', Inr res) \<Rightarrow> (h', res))"


section \<open>Notions the statements use\<close>

text \<open>
  The test of line 164 on an item: over the cargo threshold by its weight, or by its
  total size, which is infinite when an accessor raises.
\<close>

definition over_cargo_threshold :: "Luggage \<Rightarrow> bool" where
  "over_cargo_threshold item \<longleftrightarrow>
     num_less (PyInt 32) (weight item) \<or> num_less (PyInt 203) (fst (size_or_inf item))"

text \<open>
  What the body of the fee loop adds to \<^verbatim>\<open>fees\<close> for one item (lines 164 to 181):
  nothing for an item over the cargo threshold, else the overweight fee and the oversize
  fee, each when its test holds.
\<close>

definition item_fee :: "fee_table \<Rightarrow> checked_policy \<Rightarrow> Luggage \<Rightarrow> rat" where
  "item_fee ef class_policy item =
     (if over_cargo_threshold item then 0
      else (if num_less (PyFloat (weight_limit class_policy)) (weight item) then overweight ef else 0)
           + (if num_less (PyFloat (size_limit class_policy)) (fst (size_or_inf item))
                 \<and> num_le (fst (size_or_inf item)) (PyInt 203)
              then oversize ef else 0))"

text \<open>
  The two tests of line 135 and 136 on an item: every cm dimension within the carry-on
  limit of its position, and the weight within the carry-on weight limit.
\<close>

definition fits_carry_on_limits :: "carry_on_policy \<Rightarrow> Luggage \<Rightarrow> bool" where
  "fits_carry_on_limits co item \<longleftrightarrow>
     (case get_dimensions_list_cm item of
        Inl e \<Rightarrow> False
      | Inr dimensions_cm \<Rightarrow>
          length dimensions_cm \<le> length (co_size_limit co) \<and>
          list_all (\<lambda>(d, bound). val_le d bound = Inr True) (zip dimensions_cm (co_size_limit co)) \<and>
          num_le (weight item) (PyFloat (co_weight_limit co)))"

text \<open>
  The two lists that the cabin-reclaim pass of a call builds (lines 124 to 149):
  \<^verbatim>\<open>carryon_candidates\<close>, the items taken back to the cabin, and
  \<^verbatim>\<open>retained_checked_items\<close>, the items left in the hold.
\<close>

definition reclaimed_to_cabin :: "carry_on_policy \<Rightarrow> store \<Rightarrow> ref list \<Rightarrow> int \<Rightarrow> ref list" where
  "reclaimed_to_cabin co h checked_items carry_on_capacity =
     fst (snd (snd (foldl (reclaim_step co) (h, carry_on_capacity, [], [])
                      (sort_key (\<lambda>x. rank (weight (h x))) checked_items))))"

definition retained_after_reclaim :: "carry_on_policy \<Rightarrow> store \<Rightarrow> ref list \<Rightarrow> int \<Rightarrow> ref list" where
  "retained_after_reclaim co h checked_items carry_on_capacity =
     snd (snd (snd (foldl (reclaim_step co) (h, carry_on_capacity, [], [])
                      (sort_key (\<lambda>x. rank (weight (h x))) checked_items))))"

section \<open>Sample objects\<close>

text \<open>
  \<open>bag sto w hh ww dd\<close> is the object that
  \<^verbatim>\<open>Luggage(storage=sto, weight=w, dim={"height": hh, "width": ww, "depth": dd, "unit": "cm"})\<close>
  builds from five ints: the three flags have their default, False.
\<close>

definition bag :: "string \<Rightarrow> int \<Rightarrow> int \<Rightarrow> int \<Rightarrow> int \<Rightarrow> Luggage" where
  "bag sto w hh ww dd =
     \<lparr>storage = sto, excess = False, special = False, compliance = False, weight = PyInt w,
      dim = [(''height'', VNum (PyInt hh)), (''width'', VNum (PyInt ww)),
             (''depth'', VNum (PyInt dd)), (''unit'', VStr ''cm'')]\<rparr>"

text \<open>A store whose references all hold an empty checked bag, to be updated at the references in use.\<close>

definition blank_store :: store where
  "blank_store = (\<lambda>r. bag ''checked'' 0 0 0 0)"

text \<open>The object of \<^verbatim>\<open>setUp\<close> in the tests of \<^verbatim>\<open>luggage.py\<close>.\<close>

definition valid_luggage :: Luggage where
  "valid_luggage =
     \<lparr>storage = ''carry-on'', excess = False, special = False, compliance = True,
      weight = PyFloat 7,
      dim = [(''height'', VNum (PyFloat 55)), (''width'', VNum (PyFloat 40)),
             (''depth'', VNum (PyFloat 23)), (''unit'', VStr ''cm'')]\<rparr>"

text \<open>The same object built from a \<^verbatim>\<open>dim\<close> dictionary that has one more key.\<close>

definition labelled_luggage :: Luggage where
  "labelled_luggage = valid_luggage\<lparr>dim := dim valid_luggage @ [(''label'', VStr ''fragile'')]\<rparr>"

text \<open>A reading of the text of a number that knows no text: not used by the round trip of an object.\<close>

definition no_parse :: "string \<Rightarrow> pynum option" where
  "no_parse s = None"

text \<open>Two checked bags, the heavier one at the first reference.\<close>

definition two_checked_store :: store where
  "two_checked_store =
     blank_store(0 := bag ''checked'' 20 60 40 25, 1 := bag ''checked'' 10 60 40 25)"

text \<open>One checked bag of 35 kg.\<close>

definition heavy_bag_store :: store where
  "heavy_bag_store = blank_store(0 := bag ''checked'' 35 60 40 25)"

text \<open>One checked bag of 35 kg whose height is the int \<open>2 ^ 1024\<close>, in cm.\<close>

definition tall_bag_store :: store where
  "tall_bag_store = blank_store(0 := bag ''checked'' 35 (2 ^ 1024) 40 25)"

text \<open>Three checked bags: two that fit the cabin limits, one that does not.\<close>

definition cabin_store :: store where
  "cabin_store =
     blank_store(0 := bag ''checked'' 5 50 30 20, 1 := bag ''checked'' 3 40 30 20,
                 2 := bag ''checked'' 20 60 40 25)"

text \<open>Three carry-on bags of 1, 2 and 3 kg, each within the cabin limits.\<close>

definition three_cabin_store :: store where
  "three_cabin_store =
     blank_store(0 := bag ''carry-on'' 1 40 30 20, 1 := bag ''carry-on'' 2 40 30 20,
                 2 := bag ''carry-on'' 3 40 30 20)"

text \<open>A checked bag of 20 kg and a checked bag of 35 kg.\<close>

definition cargo_and_bag_store :: store where
  "cargo_and_bag_store =
     blank_store(0 := bag ''checked'' 20 60 40 25, 1 := bag ''checked'' 35 60 40 25)"

text \<open>Two checked bags, of 20 kg and of 25 kg.\<close>

definition economy_pair_store :: store where
  "economy_pair_store =
     blank_store(0 := bag ''checked'' 20 60 40 25, 1 := bag ''checked'' 25 60 40 25)"

section \<open>Properties\<close>

subsection \<open>Comparisons of numbers\<close>

lemma num_less_simps [simp]:
  "num_less (PyInt m) (PyInt n) \<longleftrightarrow> m < n"
  "num_less (PyInt m) (PyFloat r) \<longleftrightarrow> of_int m < r"
  "num_less (PyFloat q) (PyInt n) \<longleftrightarrow> q < of_int n"
  "num_less (PyFloat q) (PyFloat r) \<longleftrightarrow> q < r"
  "num_less (PyInt m) PosInf"
  "num_less (PyFloat q) PosInf"
  "\<not> num_less PosInf x"
  "\<not> num_less NaN x"
  "\<not> num_less x NaN"
  by (cases x; simp add: num_less_def)+

lemma num_le_simps [simp]:
  "num_le (PyInt m) (PyInt n) \<longleftrightarrow> m \<le> n"
  "num_le (PyInt m) (PyFloat r) \<longleftrightarrow> of_int m \<le> r"
  "num_le (PyFloat q) (PyInt n) \<longleftrightarrow> q \<le> of_int n"
  "num_le (PyFloat q) (PyFloat r) \<longleftrightarrow> q \<le> r"
  "\<not> num_le PosInf (PyInt n)"
  "\<not> num_le PosInf (PyFloat r)"
  "\<not> num_le NaN x"
  "\<not> num_le x NaN"
  by (simp_all add: num_le_def)

lemma num_eq_simps [simp]:
  "num_eq (PyInt m) (PyInt n) \<longleftrightarrow> m = n"
  "num_eq (PyInt m) (PyFloat r) \<longleftrightarrow> of_int m = r"
  "num_eq (PyFloat q) (PyInt n) \<longleftrightarrow> q = of_int n"
  "num_eq (PyFloat q) (PyFloat r) \<longleftrightarrow> q = r"
  "\<not> num_eq NaN x"
  "\<not> num_eq x NaN"
  by (simp_all add: num_eq_def)

lemma num_le_not_less:
  "x \<noteq> NaN \<Longrightarrow> y \<noteq> NaN \<Longrightarrow> num_le x y \<longleftrightarrow> \<not> num_less y x"
  by (auto simp add: num_le_def num_less_def)

subsection \<open>The accessors read the dimensions only\<close>

lemma get_dimensions_in_cm_cong:
  "dim l = dim l' \<Longrightarrow> get_dimensions_in_cm l = get_dimensions_in_cm l'"
  by (simp add: get_dimensions_in_cm_def)

lemma get_dimensions_list_cm_cong:
  "dim l = dim l' \<Longrightarrow> get_dimensions_list_cm l = get_dimensions_list_cm l'"
  by (simp add: get_dimensions_list_cm_def get_dimensions_in_cm_def)

lemma get_total_size_cm_cong:
  "dim l = dim l' \<Longrightarrow> get_total_size_cm l = get_total_size_cm l'"
  by (simp add: get_total_size_cm_def get_dimensions_in_cm_def)

lemma str_error_cong:
  "dim l = dim l' \<Longrightarrow> str_error l = str_error l'"
  by (simp add: str_error_def get_dimensions_in_cm_def)

lemma size_or_inf_cong:
  "dim l = dim l' \<Longrightarrow> size_or_inf l = size_or_inf l'"
  by (simp add: size_or_inf_def get_total_size_cm_cong [of l l']
      get_dimensions_list_cm_cong [of l l'] split: sum.splits)

text \<open>The accessors on an object built from ints in cm.\<close>

lemma bag_dimensions:
  "dim l = dim (bag sto w hh ww dd) \<Longrightarrow>
     get_dimensions_in_cm l = Inr (VNum (PyInt hh), VNum (PyInt ww), VNum (PyInt dd))"
  by (simp add: get_dimensions_in_cm_def bag_def item_at_def bind_err_def)

lemma bag_dimensions_list:
  "dim l = dim (bag sto w hh ww dd) \<Longrightarrow>
     get_dimensions_list_cm l = Inr [VNum (PyInt hh), VNum (PyInt ww), VNum (PyInt dd)]"
  by (simp add: get_dimensions_list_cm_def bag_dimensions bind_err_def)

lemma bag_total_size:
  "dim l = dim (bag sto w hh ww dd) \<Longrightarrow> get_total_size_cm l = Inr (PyInt (hh + ww + dd))"
  by (simp add: get_total_size_cm_def bag_dimensions bind_err_def as_number_def py_add_def)

lemma bag_str_error:
  "dim l = dim (bag sto w hh ww dd) \<Longrightarrow> str_error l = None"
  by (simp add: str_error_def bag_dimensions)

lemma bag_size_or_inf:
  "dim l = dim (bag sto w hh ww dd) \<Longrightarrow>
     size_or_inf l = (PyInt (hh + ww + dd), [VNum (PyInt hh), VNum (PyInt ww), VNum (PyInt dd)])"
  by (simp add: size_or_inf_def bag_total_size bag_dimensions_list)

subsection \<open>Unknown travel classes\<close>

lemma classes_init_dom:
  "classes LuggageCompliance_init tc = None \<longleftrightarrow> tc \<notin> {''Economy'', ''Business'', ''First''}"
  by (simp add: LuggageCompliance_init_def)

text \<open>
  Claim C10. For a travel class outside Economy, Business and First, each of the two
  evaluators, called directly on the policy object, raises ValueError; the store (no item
  was read or written) and the caller's list are as they were.
\<close>

theorem evaluators_reject_unknown_class:
  "tc \<notin> {''Economy'', ''Business'', ''First''} \<Longrightarrow>
     validate_carry_on LuggageCompliance_init h tc carry_on_items personal_items
       = (h, Inl ValueError) \<and>
     validate_checked_baggage LuggageCompliance_init h tc checked_items
         passenger_type carry_on_capacity
       = ((LuggageCompliance_init, h, checked_items), Inl ValueError)"
  using classes_init_dom [of tc]
  by (simp add: validate_carry_on_def validate_checked_baggage_def)

theorem evaluators_reject_unknown_class_witness:
  "''Premium'' \<notin> {''Economy'', ''Business'', ''First''} \<and>
   validate_carry_on LuggageCompliance_init blank_store ''Premium'' [0, 1] [2]
     = (blank_store, Inl ValueError) \<and>
   validate_checked_baggage LuggageCompliance_init blank_store ''Premium'' [3, 4] ''adult'' 2
     = ((LuggageCompliance_init, blank_store, [3, 4]), Inl ValueError)"
  using evaluators_reject_unknown_class
          [of "''Premium''" blank_store "[0, 1]" "[2]" "[3, 4]" "''adult''" 2]
  by simp

subsection \<open>The orchestrator's handler\<close>

lemma body_unknown_class:
  "classes self (travel_class request) = None \<Longrightarrow>
     test_eligibility_body self h request = (h, Inl ValueError)"
  by (simp add: test_eligibility_body_def validate_carry_on_def Let_def)

text \<open>
  Claim C4. Whenever the pipeline inside \<^verbatim>\<open>test_eligibility\<close> raises an exception,
  \<^verbatim>\<open>test_eligibility\<close> returns the failed result: verdict false, the error message, an
  empty moved-to-checked list, an empty cargo list and fee 0. The function returns a
  result for every request: no exception reaches the caller. So the ValueError that
  \<^verbatim>\<open>validate_carry_on\<close> raises for a travel class outside the policy table comes back
  as the failed result.
\<close>

theorem test_eligibility_catches:
  "(test_eligibility_body self h request = (h', Inl e) \<longrightarrow>
      test_eligibility self h request = (h', (False, Erreur e, [], [], 0))) \<and>
   (classes self (travel_class request) = None \<longrightarrow>
      test_eligibility self h request = (h, (False, Erreur ValueError, [], [], 0)))"
  by (simp add: test_eligibility_def body_unknown_class)

theorem test_eligibility_catches_witness:
  "test_eligibility_body LuggageCompliance_init blank_store
      \<lparr>travel_class = ''Premium'', age_category = ''adult'', luggages = [0]\<rparr>
     = (blank_store, Inl ValueError) \<and>
   test_eligibility LuggageCompliance_init blank_store
      \<lparr>travel_class = ''Premium'', age_category = ''adult'', luggages = [0]\<rparr>
     = (blank_store, (False, Erreur ValueError, [], [], 0))"
proof -
  have b: "test_eligibility_body LuggageCompliance_init blank_store
      \<lparr>travel_class = ''Premium'', age_category = ''adult'', luggages = [0]\<rparr>
     = (blank_store, Inl ValueError)"
    by (rule body_unknown_class) (simp add: LuggageCompliance_init_def)
  from test_eligibility_catches [of LuggageCompliance_init blank_store _ blank_store ValueError] b
  show ?thesis by simp
qed

subsection \<open>The classes of the policy table\<close>

lemma economy_class:
  "classes LuggageCompliance_init ''Economy''
     = Some \<lparr>carry_on = \<lparr>quantity = 1, co_weight_limit = 7, co_size_limit = [55, 40, 23]\<rparr>,
             checked = \<lparr>allowance = 1, weight_limit = 23, size_limit = 158\<rparr>\<rparr>"
  by (simp add: LuggageCompliance_init_def)

lemma business_class:
  "classes LuggageCompliance_init ''Business''
     = Some \<lparr>carry_on = \<lparr>quantity = 2, co_weight_limit = 12, co_size_limit = [55, 40, 23]\<rparr>,
             checked = \<lparr>allowance = 2, weight_limit = 32, size_limit = 158\<rparr>\<rparr>"
  by (simp add: LuggageCompliance_init_def)

lemma adult_no_allowance: "child_allowances LuggageCompliance_init ''adult'' = None"
  by (simp add: LuggageCompliance_init_def)

lemma child_allowance:
  "child_allowances LuggageCompliance_init ''child''
     = Some \<lparr>allowance = 1, weight_limit = 23, size_limit = 158\<rparr>"
  by (simp add: LuggageCompliance_init_def)

lemma init_fees:
  "excess_fees LuggageCompliance_init = \<lparr>overweight = 75, oversize = 100, extra_piece = 150\<rparr>"
  by (simp add: LuggageCompliance_init_def)

subsection \<open>The overflow of the cabin\<close>

lemma three_cabin_result:
  "validate_carry_on LuggageCompliance_init three_cabin_store ''Economy'' [0, 1, 2] []
     = (three_cabin_store
          (0 := (bag ''carry-on'' 1 40 30 20)\<lparr>excess := True\<rparr>,
           1 := (bag ''carry-on'' 2 40 30 20)\<lparr>compliance := True\<rparr>,
           2 := (bag ''carry-on'' 3 40 30 20)\<lparr>compliance := True\<rparr>),
        Inr (True, Must_move 1, [0]))"
  by (simp add: validate_carry_on_def economy_class carry_on_step_def three_cabin_store_def
      blank_store_def bag_dimensions_list bag_str_error all_le.simps val_le_def as_number_def
      bind_err_def rank_desc_def overflow_step_def
      Let_def slice_from_def mark_overflow_def fun_upd_twist bag_def)

text \<open>
  Claim C3, at an input where the code departs from it. Economy allows two cabin items;
  of three compliant carry-on bags of 1, 2 and 3 kg, \<^verbatim>\<open>validate_carry_on\<close> sorts by
  descending weight and moves the tail of the list: the bag of 1 kg, the lightest, is the
  one moved to the checked candidates and marked excess, and the bag of 3 kg stays
  compliant in the cabin.
\<close>

theorem lightest_item_evicted:
  "weight (three_cabin_store 0) = PyInt 1 \<and> weight (three_cabin_store 1) = PyInt 2 \<and>
   weight (three_cabin_store 2) = PyInt 3 \<and>
   snd (validate_carry_on LuggageCompliance_init three_cabin_store ''Economy'' [0, 1, 2] [])
     = Inr (True, Must_move 1, [0]) \<and>
   fst (validate_carry_on LuggageCompliance_init three_cabin_store ''Economy'' [0, 1, 2] []) 0
     = (bag ''carry-on'' 1 40 30 20)\<lparr>excess := True\<rparr> \<and>
   fst (validate_carry_on LuggageCompliance_init three_cabin_store ''Economy'' [0, 1, 2] []) 2
     = (bag ''carry-on'' 3 40 30 20)\<lparr>compliance := True\<rparr>"
  unfolding three_cabin_result
  by (simp add: three_cabin_store_def blank_store_def bag_def)

subsection \<open>The piece count\<close>

text \<open>
  Claim C2, at an input where the code departs from it. Economy, adult, no cabin capacity,
  a checked bag of 20 kg and one of 35 kg: the bag of 35 kg goes to cargo, which leaves
  one checked bag for an allowance of one, yet the piece count is taken over both bags:
  the extra-piece fee of 150 is charged, and the bag marked excess is the cargo bag.
\<close>

theorem cargo_item_counted_as_extra_piece:
  "validate_checked_baggage LuggageCompliance_init cargo_and_bag_store ''Economy'' [0, 1] ''adult'' 0
     = ((LuggageCompliance_init,
         cargo_and_bag_store
           (1 := (bag ''checked'' 35 60 40 25)\<lparr>excess := True, special := True\<rparr>),
         [0, 1]),
        Inr (False, Echec 1 (Frais [Extra_pieces 1]), [1], 150))"
  by (simp add: validate_checked_baggage_def checked_stage_def economy_class overlay_policy_def
      adult_no_allowance init_fees
      reclaim_step_def can_return_to_cabin_def fee_step_def mark_excess_def slice_from_def
      bag_size_or_inf bag_dimensions_list bag_str_error format_1f_error_def to_double_def
      double_bound_def bind_err_def
      cargo_and_bag_store_def blank_store_def Let_def bag_def)

subsection \<open>The cargo threshold\<close>

lemma tall_total_unformattable: "format_1f_error (PyInt (2 ^ 1024 + 40 + 25)) = Some OverflowError"
  by (simp add: format_1f_error_def to_double_def double_bound_def)

lemma tall_bag_checked:
  "validate_checked_baggage LuggageCompliance_init tall_bag_store ''Business'' [0] ''adult'' 3
     = ((LuggageCompliance_init,
         tall_bag_store(0 := (bag ''checked'' 35 (2 ^ 1024) 40 25)\<lparr>special := True\<rparr>),
         [0]),
        Inl OverflowError)"
  by (simp add: validate_checked_baggage_def checked_stage_def business_class overlay_policy_def
      adult_no_allowance init_fees
      reclaim_step_def can_return_to_cabin_def fee_step_def
      bag_size_or_inf bag_dimensions_list bag_str_error format_1f_error_def to_double_def
      double_bound_def all_within.simps val_le_def as_number_def bind_err_def
      tall_bag_store_def blank_store_def Let_def bag_def)

lemma tall_bag_storage: "storage (tall_bag_store 0) = ''checked''"
  by (simp add: tall_bag_store_def bag_def)

lemma no_cabin_items:
  "classes self tc = Some cp \<Longrightarrow> validate_carry_on self h tc [] [] = (h, Inr (True, Cabin_ok, []))"
  by (simp add: validate_carry_on_def Let_def slice_from_def mark_overflow_def)

lemma tall_bag_eligibility:
  "test_eligibility LuggageCompliance_init tall_bag_store
      \<lparr>travel_class = ''Business'', age_category = ''adult'', luggages = [0]\<rparr>
     = (tall_bag_store(0 := (bag ''checked'' 35 (2 ^ 1024) 40 25)\<lparr>special := True\<rparr>),
        (False, Erreur OverflowError, [], [], 0))"
  by (simp add: test_eligibility_def test_eligibility_body_def tall_bag_storage
      no_cabin_items [OF business_class] business_class set_checked_def tall_bag_checked Let_def)

text \<open>
  Claim C1, at an input where the code departs from it. Business, adult, one checked bag
  of 35 kg whose height is the int \<open>2 ^ 1024\<close>, in cm: an object the constructor accepts.
  The bag is over the cargo threshold; the fee loop marks it special and appends it to
  \<^verbatim>\<open>cargo_items\<close>, then the \<^verbatim>\<open>print\<close> of line 168 formats the total size, an int with no
  double, with \<^verbatim>\<open>:.1f\<close>: OverflowError. \<^verbatim>\<open>validate_checked_baggage\<close> returns no cargo
  list, and the result of \<^verbatim>\<open>test_eligibility\<close> is the failed one, whose cargo list is
  empty.
\<close>

theorem cargo_print_overflow:
  "weight (tall_bag_store 0) = PyInt 35 \<and>
   get_total_size_cm (tall_bag_store 0) = Inr (PyInt (2 ^ 1024 + 65)) \<and>
   validate_checked_baggage LuggageCompliance_init tall_bag_store ''Business'' [0] ''adult'' 3
     = ((LuggageCompliance_init,
         tall_bag_store(0 := (bag ''checked'' 35 (2 ^ 1024) 40 25)\<lparr>special := True\<rparr>),
         [0]),
        Inl OverflowError) \<and>
   test_eligibility LuggageCompliance_init tall_bag_store
      \<lparr>travel_class = ''Business'', age_category = ''adult'', luggages = [0]\<rparr>
     = (tall_bag_store(0 := (bag ''checked'' 35 (2 ^ 1024) 40 25)\<lparr>special := True\<rparr>),
        (False, Erreur OverflowError, [], [], 0))"
  unfolding tall_bag_checked tall_bag_eligibility
  by (simp add: tall_bag_store_def bag_total_size) (simp add: bag_def)

text \<open>
  At an ordinary size the scenario of the claim comes out as the claim says: Business,
  adult, one checked bag of 35 kg and 60 by 40 by 25 cm gives a false verdict, the bag as
  the cargo list and no fee.
\<close>

lemma heavy_bag_checked:
  "validate_checked_baggage LuggageCompliance_init heavy_bag_store ''Business'' [0] ''adult'' 3
     = ((LuggageCompliance_init,
         heavy_bag_store(0 := (bag ''checked'' 35 60 40 25)\<lparr>special := True\<rparr>),
         [0]),
        Inr (False, Echec 1 Conformes, [0], 0))"
  by (simp add: validate_checked_baggage_def checked_stage_def business_class overlay_policy_def
      adult_no_allowance init_fees
      reclaim_step_def can_return_to_cabin_def fee_step_def
      bag_size_or_inf bag_dimensions_list bag_str_error format_1f_error_def to_double_def
      double_bound_def all_within.simps val_le_def as_number_def bind_err_def
      heavy_bag_store_def blank_store_def Let_def bag_def)

lemma scenario_business_35:
  "test_eligibility LuggageCompliance_init heavy_bag_store
      \<lparr>travel_class = ''Business'', age_category = ''adult'', luggages = [0]\<rparr>
     = (heavy_bag_store(0 := (bag ''checked'' 35 60 40 25)\<lparr>special := True\<rparr>),
        (False, Joined [From_checked (Echec 1 Conformes)], [], [0], 0))"
  by (simp add: test_eligibility_def test_eligibility_body_def heavy_bag_store_def
      no_cabin_items [OF business_class] business_class set_checked_def
      heavy_bag_checked [unfolded heavy_bag_store_def] Let_def)
     (simp add: bag_def)

subsection \<open>Loops\<close>

lemma run_loop_invariant:
  assumes "\<And>s x. P s \<Longrightarrow> P (fst (body s x))" and "P s"
  shows "P (fst (run_loop body s xs))"
  using assms(2)
proof (induction xs arbitrary: s)
  case Nil
  then show ?case by simp
next
  case (Cons x xs)
  obtain s' err where b: "body s x = (s', err)" by (cases "body s x")
  have "P s'" using assms(1) [OF Cons.prems, of x] b by simp
  then show ?case using Cons.IH [of s'] b by (cases err) simp_all
qed

lemma run_loop_append_ok:
  "run_loop body s xs = (s', None) \<Longrightarrow> run_loop body s (xs @ ys) = run_loop body s' ys"
proof (induction xs arbitrary: s)
  case Nil
  then show ?case by simp
next
  case (Cons x xs)
  obtain s1 err where b: "body s x = (s1, err)" by (cases "body s x")
  show ?case using Cons b by (cases err) simp_all
qed

subsection \<open>What the evaluators leave unchanged\<close>

lemma reclaim_step_frame:
  "weight (fst (reclaim_step co st r) x) = weight (fst st x)"
  "dim (fst (reclaim_step co st r) x) = dim (fst st x)"
  by (cases st; simp add: reclaim_step_def Let_def split: sum.splits bool.splits option.splits)+

lemma foldl_reclaim_frame:
  "weight (fst (foldl (reclaim_step co) st xs) x) = weight (fst st x) \<and>
   dim (fst (foldl (reclaim_step co) st xs) x) = dim (fst st x)"
  by (induction xs arbitrary: st) (simp_all add: reclaim_step_frame)

lemma reclaim_frame:
  "foldl (reclaim_step co) (h, c, a, b) xs = (h', c', a', b') \<Longrightarrow>
     weight (h' x) = weight (h x) \<and> dim (h' x) = dim (h x)"
  using foldl_reclaim_frame [of co "(h, c, a, b)" xs x] by simp

lemma fee_step_frame:
  "weight (fst (fst (fee_step ef pol st r)) x) = weight (fst st x)"
  "dim (fst (fst (fee_step ef pol st r)) x) = dim (fst st x)"
  "storage (fst (fst (fee_step ef pol st r)) x) = storage (fst st x)"
  by (cases st; simp add: fee_step_def Let_def split: prod.splits option.splits)+

lemma run_fee_frame:
  "weight (fst (fst (run_loop (fee_step ef pol) st xs)) x) = weight (fst st x) \<and>
   dim (fst (fst (run_loop (fee_step ef pol) st xs)) x) = dim (fst st x) \<and>
   storage (fst (fst (run_loop (fee_step ef pol) st xs)) x) = storage (fst st x)"
  by (rule run_loop_invariant
        [where P = "\<lambda>s. weight (fst s x) = weight (fst st x) \<and> dim (fst s x) = dim (fst st x)
                      \<and> storage (fst s x) = storage (fst st x)"])
     (simp_all add: fee_step_frame)

lemma fee_frame:
  "run_loop (fee_step ef pol) (h, c, a, b) xs = ((h', c', a', b'), err) \<Longrightarrow>
     weight (h' x) = weight (h x) \<and> dim (h' x) = dim (h x) \<and> storage (h' x) = storage (h x)"
  using run_fee_frame [of ef pol "(h, c, a, b)" xs x] by simp

lemma mark_excess_frame:
  "weight (mark_excess h xs x) = weight (h x) \<and> dim (mark_excess h xs x) = dim (h x) \<and>
   special (mark_excess h xs x) = special (h x) \<and>
   compliance (mark_excess h xs x) = compliance (h x) \<and>
   storage (mark_excess h xs x) = storage (h x)"
  unfolding mark_excess_def
  by (induction xs arbitrary: h) simp_all

lemma mark_excess_other: "x \<notin> set xs \<Longrightarrow> mark_excess h xs x = h x"
  unfolding mark_excess_def
  by (induction xs arbitrary: h) simp_all

text \<open>The checked stage, once its two loops have run.\<close>

lemma checked_stage_unfold:
  assumes "foldl (reclaim_step co) (h, cap, [], []) (sort_key (\<lambda>x. rank (weight (h x))) items)
           = (h1, cap1, cands, retained)"
    and "run_loop (fee_step (excess_fees self) pol) (h1, 0, [], parts0) retained
           = ((h2, fees2, cargo, parts2), err)"
  shows "checked_stage self co pol parts0 h items cap =
     (case err of
        Some e \<Rightarrow> ((self, h2, sort_key (\<lambda>x. rank (weight (h x))) items), Inl e)
      | None \<Rightarrow>
     ((self,
       (if int (length retained) > allowance pol
        then mark_excess h2 (slice_from retained (- (int (length retained) - allowance pol)))
        else h2),
       sort_key (\<lambda>x. rank (weight (h x))) items),
      Inr (cargo = [],
           (let parts3 = (if int (length retained) > allowance pol
                          then parts2 @ [Extra_pieces (int (length retained) - allowance pol)]
                          else parts2);
                m = (if parts3 \<noteq> [] then Frais parts3 else Conformes)
            in if cargo \<noteq> [] then Echec (length cargo) m else Plain m),
           cargo,
           (if int (length retained) > allowance pol
            then fees2 + extra_piece (excess_fees self) * of_int (int (length retained) - allowance pol)
            else fees2))))"
  using assms
  by (cases err) (simp_all add: checked_stage_def Let_def max_def)

lemma checked_stage_state:
  "fst (fst (checked_stage self co pol parts0 h items cap)) = self \<and>
   snd (snd (fst (checked_stage self co pol parts0 h items cap)))
     = sort_key (\<lambda>x. rank (weight (h x))) items"
  by (simp add: checked_stage_def Let_def split: prod.splits option.splits)

lemma checked_stage_frame:
  "weight (fst (snd (fst (checked_stage self co pol parts0 h items cap))) x) = weight (h x) \<and>
   dim (fst (snd (fst (checked_stage self co pol parts0 h items cap))) x) = dim (h x)"
proof -
  obtain h1 cap1 cands retained where
    r: "foldl (reclaim_step co) (h, cap, [], []) (sort_key (\<lambda>x. rank (weight (h x))) items)
           = (h1, cap1, cands, retained)"
    by (cases "foldl (reclaim_step co) (h, cap, [], []) (sort_key (\<lambda>x. rank (weight (h x))) items)")
  obtain h2 fees2 cargo parts2 err where
    f: "run_loop (fee_step (excess_fees self) pol) (h1, 0, [], parts0) retained
           = ((h2, fees2, cargo, parts2), err)"
    by (cases "run_loop (fee_step (excess_fees self) pol) (h1, 0, [], parts0) retained") auto
  note u = checked_stage_unfold [OF r f]
  have w1: "weight (h1 x) = weight (h x) \<and> dim (h1 x) = dim (h x)"
    using reclaim_frame [OF r] by simp
  have w2: "weight (h2 x) = weight (h1 x) \<and> dim (h2 x) = dim (h1 x)"
    using fee_frame [OF f] by simp
  show ?thesis
    unfolding u using w1 w2 by (cases err) (simp_all add: mark_excess_frame)
qed

lemma validate_checked_baggage_stage:
  "classes self tc = Some cp \<Longrightarrow>
   validate_checked_baggage self h tc items pt cap
     = checked_stage self (carry_on cp) (fst (overlay_policy self (checked cp) pt))
         (snd (overlay_policy self (checked cp) pt)) h items cap"
  by (simp add: validate_checked_baggage_def split: prod.splits)

subsection \<open>The sort of the caller's list\<close>

lemma sorted_rank_num_le:
  assumes "sorted (map (\<lambda>x. rank (weight (h x))) xs)" and "\<forall>x\<in>set xs. weight (h x) \<noteq> NaN"
  shows "sorted_wrt (\<lambda>a b. num_le (weight (h a)) (weight (h b))) xs"
  using assms
  by (induction xs) (auto simp add: num_le_def)

text \<open>Two checked bags of 20 kg and 10 kg, in this order, and a class that is not in the table.\<close>

lemma two_checked_weights:
  "weight (two_checked_store 0) = PyInt 20" "weight (two_checked_store 1) = PyInt 10"
  "weight (two_checked_store (Suc 0)) = PyInt 10"
  by (simp_all add: two_checked_store_def bag_def)

text \<open>
  Claim C9, where it fails. For a travel class outside the policy table the call raises
  before the sort of line 124: the caller's list of a 20 kg bag then a 10 kg bag comes
  back in that order, which is not ascending.
\<close>

theorem unknown_class_leaves_list_unsorted:
  "snd (snd (fst (validate_checked_baggage LuggageCompliance_init two_checked_store
                    ''Premium'' [0, 1] ''adult'' 0))) = [0, 1] \<and>
   weight (two_checked_store 0) = PyInt 20 \<and> weight (two_checked_store 1) = PyInt 10 \<and>
   \<not> sorted_wrt (\<lambda>a b. num_le (weight (two_checked_store a)) (weight (two_checked_store b)))
       (snd (snd (fst (validate_checked_baggage LuggageCompliance_init two_checked_store
                         ''Premium'' [0, 1] ''adult'' 0))))"
  by (simp add: validate_checked_baggage_def LuggageCompliance_init_def two_checked_weights)

text \<open>
  Claim C9, amended. For a travel class of the policy table and weights none of which is
  NaN, the caller's list after the call is the stable sort of the list by ascending
  weight: the same items, every item no heavier than the ones after it, for the weights
  before and after the call (no weight is changed). This holds of the list whether the
  call returns or raises after the sort; for a class outside the table the call raises
  before the sort and the list is as it was (claim C10).
\<close>

theorem checked_items_sorted_in_place:
  assumes "classes self tc = Some cp" and "\<forall>x\<in>set items. weight (h x) \<noteq> NaN"
  shows "snd (snd (fst (validate_checked_baggage self h tc items pt cap)))
           = sort_key (\<lambda>x. rank (weight (h x))) items \<and>
         mset (snd (snd (fst (validate_checked_baggage self h tc items pt cap)))) = mset items \<and>
         sorted_wrt (\<lambda>a b. num_le (weight (h a)) (weight (h b)))
           (snd (snd (fst (validate_checked_baggage self h tc items pt cap)))) \<and>
         sorted_wrt (\<lambda>a b. num_le (weight (fst (snd (fst (validate_checked_baggage self h tc items pt cap))) a))
                               (weight (fst (snd (fst (validate_checked_baggage self h tc items pt cap))) b)))
           (snd (snd (fst (validate_checked_baggage self h tc items pt cap))))"
proof -
  let ?v = "validate_checked_baggage self h tc items pt cap"
  let ?s = "sort_key (\<lambda>x. rank (weight (h x))) items"
  note st = validate_checked_baggage_stage [OF assms(1), of h items pt cap]
  have l: "snd (snd (fst ?v)) = ?s"
    unfolding st by (simp add: checked_stage_state)
  have w: "weight (fst (snd (fst ?v)) x) = weight (h x)" for x
    unfolding st by (simp add: checked_stage_frame)
  have "sorted (map (\<lambda>x. rank (weight (h x))) ?s)" by simp
  moreover have "\<forall>x\<in>set ?s. weight (h x) \<noteq> NaN" using assms(2) by simp
  ultimately have o: "sorted_wrt (\<lambda>a b. num_le (weight (h a)) (weight (h b))) ?s"
    by (rule sorted_rank_num_le)
  show ?thesis using l o by (simp add: w)
qed

theorem checked_items_sorted_in_place_witness:
  "classes LuggageCompliance_init ''Economy''
     = Some \<lparr>carry_on = \<lparr>quantity = 1, co_weight_limit = 7, co_size_limit = [55, 40, 23]\<rparr>,
             checked = \<lparr>allowance = 1, weight_limit = 23, size_limit = 158\<rparr>\<rparr> \<and>
   weight (two_checked_store 0) = PyInt 20 \<and> weight (two_checked_store 1) = PyInt 10 \<and>
   snd (snd (fst (validate_checked_baggage LuggageCompliance_init two_checked_store
                    ''Economy'' [0, 1] ''adult'' 0))) = [1, 0]"
proof -
  let ?v = "validate_checked_baggage LuggageCompliance_init two_checked_store
              ''Economy'' [0, 1] ''adult'' 0"
  have n: "\<forall>x\<in>set [0, 1]. weight (two_checked_store x) \<noteq> NaN"
    by (simp add: two_checked_weights)
  have "snd (snd (fst ?v)) = sort_key (\<lambda>x. rank (weight (two_checked_store x))) [0, 1]"
    using checked_items_sorted_in_place [OF economy_class n, of "''adult''" 0] by blast
  also have "\<dots> = [1, 0]"
    by (simp add: two_checked_weights)
  finally show ?thesis using economy_class by (simp add: two_checked_weights)
qed

subsection \<open>The fee loop on items under the cargo threshold\<close>

lemma over_cargo_threshold_cong:
  "weight a = weight b \<Longrightarrow> dim a = dim b \<Longrightarrow> over_cargo_threshold a = over_cargo_threshold b"
  using size_or_inf_cong [of a b] by (simp add: over_cargo_threshold_def)

lemma item_fee_cong:
  "weight a = weight b \<Longrightarrow> dim a = dim b \<Longrightarrow> item_fee ef pol a = item_fee ef pol b"
  using size_or_inf_cong [of a b] over_cargo_threshold_cong [of a b] by (simp add: item_fee_def)

lemma format_small:
  assumes "num_less (PyFloat b) t" and "num_le t (PyInt 203)" and "0 \<le> b"
  shows "format_1f_error t = None"
proof (cases t)
  case (PyInt n)
  then have "0 < n \<and> n \<le> 203" using assms by simp
  then have "\<bar>rat_of_int n\<bar> \<le> 203" by simp
  moreover have "(203 :: rat) < double_bound" by (simp add: double_bound_def)
  ultimately show ?thesis using PyInt by (simp add: format_1f_error_def to_double_def)
qed (simp_all add: format_1f_error_def to_double_def)

lemma fee_step_plain:
  assumes "\<not> over_cargo_threshold (h r)" and "0 \<le> size_limit pol"
  shows "\<exists>h' p'. fee_step ef pol (h, f, c, p) r = ((h', f + item_fee ef pol (h r), c, p'), None)"
proof -
  obtain t ds where s: "size_or_inf (h r) = (t, ds)" by (cases "size_or_inf (h r)")
  have n: "\<not> num_less (PyInt 32) (weight (h r))" "\<not> num_less (PyInt 203) t"
    using assms(1) s by (simp_all add: over_cargo_threshold_def)
  show ?thesis
  proof (cases "num_less (PyFloat (size_limit pol)) t \<and> num_le t (PyInt 203)")
    case True
    then have "format_1f_error t = None" using format_small assms(2) by blast
    then show ?thesis
      using True n s assms(1) by (simp add: fee_step_def item_fee_def Let_def)
  next
    case False
    then show ?thesis
      using n s assms(1) by (auto simp add: fee_step_def item_fee_def Let_def)
  qed
qed

lemma run_fee_plain:
  assumes "\<forall>r\<in>set xs. \<not> over_cargo_threshold (h r)" and "0 \<le> size_limit pol"
  shows "\<exists>h' p'. run_loop (fee_step ef pol) (h, f, c, p) xs
           = ((h', f + sum_list (map (\<lambda>r. item_fee ef pol (h r)) xs), c, p'), None)"
  using assms(1)
proof (induction xs arbitrary: h f p)
  case Nil
  then show ?case by simp
next
  case (Cons x xs)
  obtain h1 p1 where
    b: "fee_step ef pol (h, f, c, p) x = ((h1, f + item_fee ef pol (h x), c, p1), None)"
    using fee_step_plain [of h x pol ef f c p] Cons.prems assms(2) by auto
  have w: "weight (h1 y) = weight (h y) \<and> dim (h1 y) = dim (h y)" for y
    using fee_step_frame [of ef pol "(h, f, c, p)" x y] b by simp
  have o: "\<forall>r\<in>set xs. \<not> over_cargo_threshold (h1 r)"
    using Cons.prems w over_cargo_threshold_cong by (metis list.set_intros(2))
  have e: "(\<lambda>r. item_fee ef pol (h1 r)) = (\<lambda>r. item_fee ef pol (h r))"
    using w item_fee_cong by blast
  obtain h' p' where
    "run_loop (fee_step ef pol) (h1, f + item_fee ef pol (h x), c, p1) xs
       = ((h', f + item_fee ef pol (h x) + sum_list (map (\<lambda>r. item_fee ef pol (h1 r)) xs), c, p'), None)"
    using Cons.IH [OF o] by blast
  then show ?case using b e by (simp add: add.assoc)
qed

text \<open>The loop appends to \<^verbatim>\<open>cargo_items\<close> every item over the threshold that it reaches.\<close>

lemma fee_step_cargo_list:
  "fst (snd (snd (fst (fee_step ef pol st r))))
     = fst (snd (snd st)) @ (if over_cargo_threshold (fst st r) then [r] else [])"
  by (cases st; simp add: fee_step_def over_cargo_threshold_def Let_def
        split: prod.splits option.splits)

lemma run_fee_cargo_grows:
  "fst (snd (snd st)) \<noteq> [] \<Longrightarrow> fst (snd (snd (fst (run_loop (fee_step ef pol) st xs)))) \<noteq> []"
  by (rule run_loop_invariant [where P = "\<lambda>s. fst (snd (snd s)) \<noteq> []"])
     (simp_all add: fee_step_cargo_list)

lemma run_fee_no_cargo:
  assumes "run_loop (fee_step ef pol) st xs = (st', None)" and "fst (snd (snd st')) = []"
  shows "\<forall>r\<in>set xs. \<not> over_cargo_threshold (fst st r)"
  using assms
proof (induction xs arbitrary: st)
  case Nil
  then show ?case by simp
next
  case (Cons x xs)
  obtain s1 e1 where b: "fee_step ef pol st x = (s1, e1)" by (cases "fee_step ef pol st x")
  have e: "e1 = None" using Cons.prems(1) b by (cases e1) simp_all
  then have l: "run_loop (fee_step ef pol) s1 xs = (st', None)" using Cons.prems(1) b by simp
  have c1: "fst (snd (snd s1)) = []"
    using run_fee_cargo_grows [of s1 ef pol xs] l Cons.prems(2) by auto
  have w: "weight (fst s1 y) = weight (fst st y) \<and> dim (fst s1 y) = dim (fst st y)" for y
    using fee_step_frame [of ef pol st x y] b by simp
  have "\<not> over_cargo_threshold (fst st x)"
    using fee_step_cargo_list [of ef pol st x] b c1 by (auto split: if_splits)
  moreover have "\<forall>r\<in>set xs. \<not> over_cargo_threshold (fst st r)"
    using Cons.IH [OF l Cons.prems(2)] w over_cargo_threshold_cong by metis
  ultimately show ?case by simp
qed

text \<open>
  The list of checked items that the cabin-reclaim pass of a call leaves in the hold.
\<close>

lemma checked_stage_fees:
  assumes r: "foldl (reclaim_step co) (h, cap, [], []) (sort_key (\<lambda>x. rank (weight (h x))) items)
                = (h1, cap1, cands, retained)"
    and n: "\<forall>x\<in>set retained. \<not> over_cargo_threshold (h x)"
    and s: "0 \<le> size_limit pol"
  shows "\<exists>m. snd (checked_stage self co pol parts0 h items cap)
           = Inr (True, Plain m, [],
                  sum_list (map (\<lambda>x. item_fee (excess_fees self) pol (h x)) retained)
                  + extra_piece (excess_fees self)
                    * of_int (max 0 (int (length retained) - allowance pol)))"
proof -
  have w: "weight (h1 x) = weight (h x) \<and> dim (h1 x) = dim (h x)" for x
    using reclaim_frame [OF r] by simp
  have n1: "\<forall>x\<in>set retained. \<not> over_cargo_threshold (h1 x)"
    using n w over_cargo_threshold_cong by metis
  have e: "(\<lambda>x. item_fee (excess_fees self) pol (h1 x)) = (\<lambda>x. item_fee (excess_fees self) pol (h x))"
    using w item_fee_cong by blast
  obtain h2 parts2 where
    f: "run_loop (fee_step (excess_fees self) pol) (h1, 0, [], parts0) retained
          = ((h2, 0 + sum_list (map (\<lambda>x. item_fee (excess_fees self) pol (h1 x)) retained), [], parts2), None)"
    using run_fee_plain [OF n1 s, of "excess_fees self" 0 "[]" parts0] by blast
  show ?thesis
    unfolding checked_stage_unfold [OF r f] using e
    by (simp add: Let_def max_def)
qed

subsection \<open>The age overlay\<close>

lemma economy_pair_at:
  "economy_pair_store 0 = bag ''checked'' 20 60 40 25"
  "economy_pair_store (Suc 0) = bag ''checked'' 25 60 40 25"
  "economy_pair_store 1 = bag ''checked'' 25 60 40 25"
  by (simp_all add: economy_pair_store_def)

lemma economy_pair_child:
  "checked_stage LuggageCompliance_init
      \<lparr>quantity = 1, co_weight_limit = 7, co_size_limit = [55, 40, 23]\<rparr>
      \<lparr>allowance = 2, weight_limit = 23, size_limit = 158\<rparr> [Child_allowance 1]
      economy_pair_store [0, 1] 0
     = ((LuggageCompliance_init,
         economy_pair_store(1 := (bag ''checked'' 25 60 40 25)\<lparr>excess := True\<rparr>), [0, 1]),
        Inr (True,
             Plain (Frais [Child_allowance 1,
                           Surpoids [VNum (PyInt 60), VNum (PyInt 40), VNum (PyInt 25)] (PyInt 25) 23]),
             [], 75))"
  by (simp add: checked_stage_def init_fees
      reclaim_step_def can_return_to_cabin_def fee_step_def mark_excess_def slice_from_def
      bag_size_or_inf bag_dimensions_list bag_str_error format_1f_error_def to_double_def
      double_bound_def bind_err_def
      economy_pair_store_def blank_store_def Let_def bag_def)

lemma economy_pair_adult:
  "validate_checked_baggage LuggageCompliance_init economy_pair_store ''Economy'' [0, 1] ''adult'' 0
     = ((LuggageCompliance_init,
         economy_pair_store(1 := (bag ''checked'' 25 60 40 25)\<lparr>excess := True\<rparr>), [0, 1]),
        Inr (True,
             Plain (Frais [Surpoids [VNum (PyInt 60), VNum (PyInt 40), VNum (PyInt 25)] (PyInt 25) 23,
                           Extra_pieces 1]),
             [], 225))"
  by (simp add: validate_checked_baggage_def checked_stage_def economy_class overlay_policy_def
      adult_no_allowance init_fees
      reclaim_step_def can_return_to_cabin_def fee_step_def mark_excess_def slice_from_def
      bag_size_or_inf bag_dimensions_list bag_str_error format_1f_error_def to_double_def
      double_bound_def bind_err_def
      economy_pair_store_def blank_store_def Let_def bag_def)

text \<open>
  Claim C7. For a travel class of the table and an age category that has an allowance
  (child or infant), \<^verbatim>\<open>validate_checked_baggage\<close> evaluates the checked items with the
  overlaid copy of the class's checked policy: the rest of its body runs with the piece
  allowance of the class plus the allowance of the age category and with the larger of the
  two weight limits, the size limit being the one of the class; and the policy object
  after the call is the one before it, so the table of the class still holds the policy
  without the overlay. In particular, when no item left in the hold is over the cargo
  threshold, the call returns a true verdict and a fee that is the sum of the fees of
  these items against the overlaid weight limit, plus the extra-piece fee for each of
  them beyond the overlaid allowance.
\<close>

theorem age_overlay_applied:
  assumes c: "classes self tc = Some cp" and a: "child_allowances self pt = Some child"
  shows
    "validate_checked_baggage self h tc items pt cap
       = checked_stage self (carry_on cp)
           ((checked cp)\<lparr>allowance := allowance (checked cp) + allowance child,
                         weight_limit := max (weight_limit (checked cp)) (weight_limit child)\<rparr>)
           [Child_allowance (allowance child)] h items cap \<and>
     fst (fst (validate_checked_baggage self h tc items pt cap)) = self \<and>
     classes (fst (fst (validate_checked_baggage self h tc items pt cap))) tc = Some cp \<and>
     (0 \<le> size_limit (checked cp) \<and>
      (\<forall>x\<in>set (retained_after_reclaim (carry_on cp) h items cap). \<not> over_cargo_threshold (h x)) \<longrightarrow>
        (\<exists>m. snd (validate_checked_baggage self h tc items pt cap)
           = Inr (True, Plain m, [],
                  sum_list (map (\<lambda>x. item_fee (excess_fees self)
                                        ((checked cp)\<lparr>allowance := allowance (checked cp) + allowance child,
                                                      weight_limit := max (weight_limit (checked cp)) (weight_limit child)\<rparr>)
                                        (h x))
                              (retained_after_reclaim (carry_on cp) h items cap))
                  + extra_piece (excess_fees self)
                    * of_int (max 0 (int (length (retained_after_reclaim (carry_on cp) h items cap))
                                     - (allowance (checked cp) + allowance child))))))"
proof -
  let ?pol = "(checked cp)\<lparr>allowance := allowance (checked cp) + allowance child,
                            weight_limit := max (weight_limit (checked cp)) (weight_limit child)\<rparr>"
  let ?ret = "retained_after_reclaim (carry_on cp) h items cap"
  have e: "validate_checked_baggage self h tc items pt cap
             = checked_stage self (carry_on cp) ?pol [Child_allowance (allowance child)] h items cap"
    using c a by (simp add: validate_checked_baggage_def overlay_policy_def)
  have s: "fst (fst (validate_checked_baggage self h tc items pt cap)) = self"
    unfolding e by (simp add: checked_stage_state)
  have f: "\<exists>m. snd (validate_checked_baggage self h tc items pt cap)
           = Inr (True, Plain m, [],
                  sum_list (map (\<lambda>x. item_fee (excess_fees self) ?pol (h x)) ?ret)
                  + extra_piece (excess_fees self)
                    * of_int (max 0 (int (length ?ret) - (allowance (checked cp) + allowance child))))"
    if l: "0 \<le> size_limit (checked cp)" and n: "\<forall>x\<in>set ?ret. \<not> over_cargo_threshold (h x)"
  proof -
    obtain h1 cap1 cands retained where
      r: "foldl (reclaim_step (carry_on cp)) (h, cap, [], [])
            (sort_key (\<lambda>x. rank (weight (h x))) items) = (h1, cap1, cands, retained)"
      by (cases "foldl (reclaim_step (carry_on cp)) (h, cap, [], [])
                   (sort_key (\<lambda>x. rank (weight (h x))) items)")
    have t: "?ret = retained" using r by (simp add: retained_after_reclaim_def)
    have l': "0 \<le> size_limit ?pol" using l by simp
    show ?thesis
      unfolding e t
      using checked_stage_fees [OF r n [unfolded t] l', of self "[Child_allowance (allowance child)]"]
      by simp
  qed
  show ?thesis using e s c f by (simp del: max_def)
qed

theorem age_overlay_applied_witness:
  "classes LuggageCompliance_init ''Economy''
     = Some \<lparr>carry_on = \<lparr>quantity = 1, co_weight_limit = 7, co_size_limit = [55, 40, 23]\<rparr>,
             checked = \<lparr>allowance = 1, weight_limit = 23, size_limit = 158\<rparr>\<rparr> \<and>
   child_allowances LuggageCompliance_init ''child''
     = Some \<lparr>allowance = 1, weight_limit = 23, size_limit = 158\<rparr> \<and>
   snd (validate_checked_baggage LuggageCompliance_init economy_pair_store ''Economy'' [0, 1] ''child'' 0)
     = Inr (True,
            Plain (Frais [Child_allowance 1,
                          Surpoids [VNum (PyInt 60), VNum (PyInt 40), VNum (PyInt 25)] (PyInt 25) 23]),
            [], 75) \<and>
   snd (validate_checked_baggage LuggageCompliance_init economy_pair_store ''Economy'' [0, 1] ''adult'' 0)
     = Inr (True,
            Plain (Frais [Surpoids [VNum (PyInt 60), VNum (PyInt 40), VNum (PyInt 25)] (PyInt 25) 23,
                          Extra_pieces 1]),
            [], 225) \<and>
   classes (fst (fst (validate_checked_baggage LuggageCompliance_init economy_pair_store
                        ''Economy'' [0, 1] ''child'' 0))) ''Economy''
     = Some \<lparr>carry_on = \<lparr>quantity = 1, co_weight_limit = 7, co_size_limit = [55, 40, 23]\<rparr>,
             checked = \<lparr>allowance = 1, weight_limit = 23, size_limit = 158\<rparr>\<rparr>"
proof -
  note t = age_overlay_applied [OF economy_class child_allowance, of economy_pair_store "[0, 1]" 0]
  have e: "validate_checked_baggage LuggageCompliance_init economy_pair_store ''Economy'' [0, 1] ''child'' 0
         = checked_stage LuggageCompliance_init
             \<lparr>quantity = 1, co_weight_limit = 7, co_size_limit = [55, 40, 23]\<rparr>
             \<lparr>allowance = 2, weight_limit = 23, size_limit = 158\<rparr> [Child_allowance 1]
             economy_pair_store [0, 1] 0"
    using t by simp
  have k: "classes (fst (fst (validate_checked_baggage LuggageCompliance_init economy_pair_store
                        ''Economy'' [0, 1] ''child'' 0))) ''Economy''
     = Some \<lparr>carry_on = \<lparr>quantity = 1, co_weight_limit = 7, co_size_limit = [55, 40, 23]\<rparr>,
             checked = \<lparr>allowance = 1, weight_limit = 23, size_limit = 158\<rparr>\<rparr>"
    using t by blast
  have c1: "snd (validate_checked_baggage LuggageCompliance_init economy_pair_store ''Economy'' [0, 1] ''child'' 0)
     = Inr (True,
            Plain (Frais [Child_allowance 1,
                          Surpoids [VNum (PyInt 60), VNum (PyInt 40), VNum (PyInt 25)] (PyInt 25) 23]),
            [], 75)"
    unfolding e economy_pair_child by simp
  have c2: "snd (validate_checked_baggage LuggageCompliance_init economy_pair_store ''Economy'' [0, 1] ''adult'' 0)
     = Inr (True,
            Plain (Frais [Surpoids [VNum (PyInt 60), VNum (PyInt 40), VNum (PyInt 25)] (PyInt 25) 23,
                          Extra_pieces 1]),
            [], 225)"
    unfolding economy_pair_adult by simp
  show ?thesis
    using economy_class child_allowance c1 c2 k by blast
qed

end
